theory Spec2Isabelle
  imports Complex_Main "HOL-Library.AList"
begin

section \<open>Python values\<close>

text \<open>
  Python floats are modelled as reals (\<open>float('inf')\<close> gets the type \<open>xreal\<close> where the
  source uses it), Python ints as \<open>int\<close>, \<open>str\<close> as \<open>string\<close>. The values stored in the
  parsed telemetry dictionaries are strings, floats and ints.
\<close>

datatype pyval = PStr string | PFloat real | PInt int

datatype xreal = Fin real | PInf

datatype exn = UnicodeDecodeError | ValueError | IndexError | KeyError | TypeError
  | OSError | ConfigParserError | MinimizerError string

text \<open>\<open>int(x)\<close> on a float truncates towards zero.\<close>

definition py_int :: "real \<Rightarrow> int" where
  "py_int x = (if 0 \<le> x then \<lfloor>x\<rfloor> else \<lceil>x\<rceil>)"

text \<open>A dict built from pairs: a later pair for the same key wins.\<close>

definition dict_of :: "('k \<times> 'v) list \<Rightarrow> ('k \<rightharpoonup> 'v)" where
  "dict_of ps = foldl (\<lambda>m (k, v). m(k \<mapsto> v)) Map.empty ps"

section \<open>waterfall\_controller.py\<close>

record TickParameters =
  tp_threshold :: real
  tp_adapt_down :: real
  tp_adapt_up :: real
  tp_min_duration :: real

record CorrelatorParameters =
  cp_confidence :: real
  cp_max_misses :: int

record MarkerParameters =
  mp_threshold :: real
  mp_adapt_rate :: real
  mp_min_duration :: real

record SyncParameters =
  sp_weight_tick :: real
  sp_weight_marker :: real
  sp_weight_p_marker :: real
  sp_weight_tick_hole :: real
  sp_weight_combined :: real
  sp_locked_threshold :: real
  sp_min_retain :: real
  sp_tentative_init :: real
  sp_decay_normal :: real
  sp_decay_recovering :: real
  sp_tick_tolerance :: real
  sp_marker_tolerance :: real
  sp_p_marker_tolerance :: real

text \<open>
  A command is the datagram text \<open>f"{name} {value}"\<close>, kept as its two parts.
  The controller state holds whether the socket exists, the datagrams handed to
  \<open>sendto\<close> so far (oldest first), the number of \<open>sendto\<close> calls made, and the
  link: whether the n-th \<open>sendto\<close> call succeeds (\<open>False\<close>: it raises \<open>socket.error\<close>).
\<close>

datatype command = Cmd string pyval

record WaterfallController =
  wsocket :: bool
  tick_params :: TickParameters
  corr_params :: CorrelatorParameters
  marker_params :: MarkerParameters
  sync_params :: SyncParameters
  sent :: "command list"
  attempts :: nat
  link :: "nat \<Rightarrow> bool"

definition PARAM_BOUNDS :: "(string \<times> real \<times> real) list" where
  "PARAM_BOUNDS =
    [(''threshold'', (1, 5)),
     (''adapt_down'', (9/10, 999/1000)),
     (''adapt_up'', (1/1000, 1/10)),
     (''min_duration'', (1, 10)),
     (''confidence'', (1/2, 95/100)),
     (''max_misses'', (2, 10)),
     (''marker_threshold'', (2, 5)),
     (''marker_adapt_rate'', (1/10000, 1/100)),
     (''marker_min_duration'', (300, 700)),
     (''sync_weight_tick'', (1/100, 2/10)),
     (''sync_weight_marker'', (1/10, 6/10)),
     (''sync_weight_p_marker'', (5/100, 3/10)),
     (''sync_weight_tick_hole'', (5/100, 4/10)),
     (''sync_weight_combined'', (2/10, 8/10)),
     (''sync_locked_threshold'', (1/2, 9/10)),
     (''sync_min_retain'', (1/100, 2/10)),
     (''sync_tentative_init'', (1/10, 1/2)),
     (''sync_decay_normal'', (99/100, 9999/10000)),
     (''sync_decay_recovering'', (90/100, 99/100)),
     (''sync_tick_tolerance'', (50, 200)),
     (''sync_marker_tolerance'', (200, 800)),
     (''sync_p_marker_tolerance'', (100, 400))]"

definition send :: "command \<Rightarrow> WaterfallController \<Rightarrow> bool \<times> WaterfallController" where
  "send cmd s =
     (if \<not> wsocket s then (False, s)
      else if link s (attempts s)
        then (True, s\<lparr>sent := sent s @ [cmd], attempts := Suc (attempts s)\<rparr>)
        else (False, s\<lparr>attempts := Suc (attempts s)\<rparr>))"

definition set_tick_threshold :: "real \<Rightarrow> WaterfallController \<Rightarrow> bool \<times> WaterfallController" where
  "set_tick_threshold v s =
     send (Cmd ''SET_TICK_THRESHOLD'' (PFloat v)) (s\<lparr>tick_params := (tick_params s)\<lparr>tp_threshold := v\<rparr>\<rparr>)"

definition set_tick_adapt_down :: "real \<Rightarrow> WaterfallController \<Rightarrow> bool \<times> WaterfallController" where
  "set_tick_adapt_down v s =
     send (Cmd ''SET_TICK_ADAPT_DOWN'' (PFloat v)) (s\<lparr>tick_params := (tick_params s)\<lparr>tp_adapt_down := v\<rparr>\<rparr>)"

definition set_tick_adapt_up :: "real \<Rightarrow> WaterfallController \<Rightarrow> bool \<times> WaterfallController" where
  "set_tick_adapt_up v s =
     send (Cmd ''SET_TICK_ADAPT_UP'' (PFloat v)) (s\<lparr>tick_params := (tick_params s)\<lparr>tp_adapt_up := v\<rparr>\<rparr>)"

definition set_tick_min_duration :: "real \<Rightarrow> WaterfallController \<Rightarrow> bool \<times> WaterfallController" where
  "set_tick_min_duration v s =
     send (Cmd ''SET_TICK_MIN_DURATION'' (PFloat v)) (s\<lparr>tick_params := (tick_params s)\<lparr>tp_min_duration := v\<rparr>\<rparr>)"

definition set_corr_confidence :: "real \<Rightarrow> WaterfallController \<Rightarrow> bool \<times> WaterfallController" where
  "set_corr_confidence v s =
     send (Cmd ''SET_CORR_CONFIDENCE'' (PFloat v)) (s\<lparr>corr_params := (corr_params s)\<lparr>cp_confidence := v\<rparr>\<rparr>)"

definition set_corr_max_misses :: "real \<Rightarrow> WaterfallController \<Rightarrow> bool \<times> WaterfallController" where
  "set_corr_max_misses v s =
     send (Cmd ''SET_CORR_MAX_MISSES'' (PInt (py_int v)))
       (s\<lparr>corr_params := (corr_params s)\<lparr>cp_max_misses := py_int v\<rparr>\<rparr>)"

definition set_marker_threshold :: "real \<Rightarrow> WaterfallController \<Rightarrow> bool \<times> WaterfallController" where
  "set_marker_threshold v s =
     send (Cmd ''SET_MARKER_THRESHOLD'' (PFloat v)) (s\<lparr>marker_params := (marker_params s)\<lparr>mp_threshold := v\<rparr>\<rparr>)"

definition set_marker_adapt_rate :: "real \<Rightarrow> WaterfallController \<Rightarrow> bool \<times> WaterfallController" where
  "set_marker_adapt_rate v s =
     send (Cmd ''SET_MARKER_ADAPT_RATE'' (PFloat v)) (s\<lparr>marker_params := (marker_params s)\<lparr>mp_adapt_rate := v\<rparr>\<rparr>)"

definition set_marker_min_duration :: "real \<Rightarrow> WaterfallController \<Rightarrow> bool \<times> WaterfallController" where
  "set_marker_min_duration v s =
     send (Cmd ''SET_MARKER_MIN_DURATION'' (PFloat v)) (s\<lparr>marker_params := (marker_params s)\<lparr>mp_min_duration := v\<rparr>\<rparr>)"

definition set_sync_weight_tick :: "real \<Rightarrow> WaterfallController \<Rightarrow> bool \<times> WaterfallController" where
  "set_sync_weight_tick v s =
     send (Cmd ''SET_SYNC_WEIGHT_TICK'' (PFloat v)) (s\<lparr>sync_params := (sync_params s)\<lparr>sp_weight_tick := v\<rparr>\<rparr>)"

definition set_sync_weight_marker :: "real \<Rightarrow> WaterfallController \<Rightarrow> bool \<times> WaterfallController" where
  "set_sync_weight_marker v s =
     send (Cmd ''SET_SYNC_WEIGHT_MARKER'' (PFloat v)) (s\<lparr>sync_params := (sync_params s)\<lparr>sp_weight_marker := v\<rparr>\<rparr>)"

definition set_sync_weight_p_marker :: "real \<Rightarrow> WaterfallController \<Rightarrow> bool \<times> WaterfallController" where
  "set_sync_weight_p_marker v s =
     send (Cmd ''SET_SYNC_WEIGHT_P_MARKER'' (PFloat v)) (s\<lparr>sync_params := (sync_params s)\<lparr>sp_weight_p_marker := v\<rparr>\<rparr>)"

definition set_sync_weight_tick_hole :: "real \<Rightarrow> WaterfallController \<Rightarrow> bool \<times> WaterfallController" where
  "set_sync_weight_tick_hole v s =
     send (Cmd ''SET_SYNC_WEIGHT_TICK_HOLE'' (PFloat v)) (s\<lparr>sync_params := (sync_params s)\<lparr>sp_weight_tick_hole := v\<rparr>\<rparr>)"

definition set_sync_weight_combined :: "real \<Rightarrow> WaterfallController \<Rightarrow> bool \<times> WaterfallController" where
  "set_sync_weight_combined v s =
     send (Cmd ''SET_SYNC_WEIGHT_COMBINED'' (PFloat v)) (s\<lparr>sync_params := (sync_params s)\<lparr>sp_weight_combined := v\<rparr>\<rparr>)"

definition set_sync_locked_threshold :: "real \<Rightarrow> WaterfallController \<Rightarrow> bool \<times> WaterfallController" where
  "set_sync_locked_threshold v s =
     send (Cmd ''SET_SYNC_LOCKED_THRESHOLD'' (PFloat v)) (s\<lparr>sync_params := (sync_params s)\<lparr>sp_locked_threshold := v\<rparr>\<rparr>)"

definition set_sync_min_retain :: "real \<Rightarrow> WaterfallController \<Rightarrow> bool \<times> WaterfallController" where
  "set_sync_min_retain v s =
     send (Cmd ''SET_SYNC_MIN_RETAIN'' (PFloat v)) (s\<lparr>sync_params := (sync_params s)\<lparr>sp_min_retain := v\<rparr>\<rparr>)"

definition set_sync_tentative_init :: "real \<Rightarrow> WaterfallController \<Rightarrow> bool \<times> WaterfallController" where
  "set_sync_tentative_init v s =
     send (Cmd ''SET_SYNC_TENTATIVE_INIT'' (PFloat v)) (s\<lparr>sync_params := (sync_params s)\<lparr>sp_tentative_init := v\<rparr>\<rparr>)"

definition set_sync_decay_normal :: "real \<Rightarrow> WaterfallController \<Rightarrow> bool \<times> WaterfallController" where
  "set_sync_decay_normal v s =
     send (Cmd ''SET_SYNC_DECAY_NORMAL'' (PFloat v)) (s\<lparr>sync_params := (sync_params s)\<lparr>sp_decay_normal := v\<rparr>\<rparr>)"

definition set_sync_decay_recovering :: "real \<Rightarrow> WaterfallController \<Rightarrow> bool \<times> WaterfallController" where
  "set_sync_decay_recovering v s =
     send (Cmd ''SET_SYNC_DECAY_RECOVERING'' (PFloat v)) (s\<lparr>sync_params := (sync_params s)\<lparr>sp_decay_recovering := v\<rparr>\<rparr>)"

definition set_sync_tick_tolerance :: "real \<Rightarrow> WaterfallController \<Rightarrow> bool \<times> WaterfallController" where
  "set_sync_tick_tolerance v s =
     send (Cmd ''SET_SYNC_TICK_TOLERANCE'' (PFloat v)) (s\<lparr>sync_params := (sync_params s)\<lparr>sp_tick_tolerance := v\<rparr>\<rparr>)"

definition set_sync_marker_tolerance :: "real \<Rightarrow> WaterfallController \<Rightarrow> bool \<times> WaterfallController" where
  "set_sync_marker_tolerance v s =
     send (Cmd ''SET_SYNC_MARKER_TOLERANCE'' (PFloat v)) (s\<lparr>sync_params := (sync_params s)\<lparr>sp_marker_tolerance := v\<rparr>\<rparr>)"

definition set_sync_p_marker_tolerance :: "real \<Rightarrow> WaterfallController \<Rightarrow> bool \<times> WaterfallController" where
  "set_sync_p_marker_tolerance v s =
     send (Cmd ''SET_SYNC_P_MARKER_TOLERANCE'' (PFloat v)) (s\<lparr>sync_params := (sync_params s)\<lparr>sp_p_marker_tolerance := v\<rparr>\<rparr>)"

text \<open>
  \<open>set_parameters\<close> is a chain of \<open>if key in params: success &= setter(params[key])\<close>
  statements, in this order. \<open>&=\<close> does not short-circuit: every setter whose key is
  present runs.
\<close>

definition param_setters :: "(string \<times> (real \<Rightarrow> WaterfallController \<Rightarrow> bool \<times> WaterfallController)) list" where
  "param_setters =
    [(''threshold'', set_tick_threshold),
     (''adapt_down'', set_tick_adapt_down),
     (''adapt_up'', set_tick_adapt_up),
     (''min_duration'', set_tick_min_duration),
     (''confidence'', set_corr_confidence),
     (''max_misses'', set_corr_max_misses),
     (''marker_threshold'', set_marker_threshold),
     (''marker_adapt_rate'', set_marker_adapt_rate),
     (''marker_min_duration'', set_marker_min_duration),
     (''sync_weight_tick'', set_sync_weight_tick),
     (''sync_weight_marker'', set_sync_weight_marker),
     (''sync_weight_p_marker'', set_sync_weight_p_marker),
     (''sync_weight_tick_hole'', set_sync_weight_tick_hole),
     (''sync_weight_combined'', set_sync_weight_combined),
     (''sync_locked_threshold'', set_sync_locked_threshold),
     (''sync_min_retain'', set_sync_min_retain),
     (''sync_tentative_init'', set_sync_tentative_init),
     (''sync_decay_normal'', set_sync_decay_normal),
     (''sync_decay_recovering'', set_sync_decay_recovering),
     (''sync_tick_tolerance'', set_sync_tick_tolerance),
     (''sync_marker_tolerance'', set_sync_marker_tolerance),
     (''sync_p_marker_tolerance'', set_sync_p_marker_tolerance)]"

definition set_if_present ::
  "(string \<rightharpoonup> real) \<Rightarrow> bool \<times> WaterfallController
     \<Rightarrow> string \<times> (real \<Rightarrow> WaterfallController \<Rightarrow> bool \<times> WaterfallController)
     \<Rightarrow> bool \<times> WaterfallController" where
  "set_if_present params acc ks =
     (case params (fst ks) of
        None \<Rightarrow> acc
      | Some v \<Rightarrow> (let r = snd ks v (snd acc) in (fst acc \<and> fst r, snd r)))"

definition set_parameters :: "(string \<rightharpoonup> real) \<Rightarrow> WaterfallController \<Rightarrow> bool \<times> WaterfallController" where
  "set_parameters params s = foldl (set_if_present params) (True, s) param_setters"

definition set_parameters_from_array ::
  "real list \<Rightarrow> string \<Rightarrow> WaterfallController \<Rightarrow> bool \<times> WaterfallController" where
  "set_parameters_from_array vals mode s =
     (let param_names =
        (if mode = ''tick'' then [''threshold'', ''adapt_down'', ''adapt_up'', ''min_duration'']
         else if mode = ''corr'' then [''confidence'', ''max_misses'']
         else if mode = ''marker'' then [''marker_threshold'', ''marker_adapt_rate'', ''marker_min_duration'']
         else if mode = ''sync'' then
           [''sync_weight_tick'', ''sync_weight_marker'', ''sync_weight_p_marker'',
            ''sync_weight_tick_hole'', ''sync_weight_combined'',
            ''sync_locked_threshold'', ''sync_min_retain'', ''sync_tentative_init'',
            ''sync_decay_normal'', ''sync_decay_recovering'',
            ''sync_tick_tolerance'', ''sync_marker_tolerance'', ''sync_p_marker_tolerance'']
         else
           [''threshold'', ''adapt_down'', ''adapt_up'', ''min_duration'',
            ''confidence'', ''max_misses'',
            ''marker_threshold'', ''marker_adapt_rate'', ''marker_min_duration'',
            ''sync_weight_tick'', ''sync_weight_marker'', ''sync_weight_p_marker'',
            ''sync_weight_tick_hole'', ''sync_weight_combined'',
            ''sync_locked_threshold'', ''sync_min_retain'', ''sync_tentative_init'',
            ''sync_decay_normal'', ''sync_decay_recovering'',
            ''sync_tick_tolerance'', ''sync_marker_tolerance'', ''sync_p_marker_tolerance''])
      in set_parameters (dict_of (zip param_names vals)) s)"

text \<open>\<open>self.PARAM_BOUNDS[k]\<close> for each listed key; a missing key would raise \<open>KeyError\<close>.\<close>

fun bounds_for :: "string list \<Rightarrow> exn + (real \<times> real) list" where
  "bounds_for [] = Inr []"
| "bounds_for (k # ks) =
     (case map_of PARAM_BOUNDS k of
        None \<Rightarrow> Inl KeyError
      | Some b \<Rightarrow> (case bounds_for ks of Inl e \<Rightarrow> Inl e | Inr bs \<Rightarrow> Inr (b # bs)))"

definition get_bounds :: "string \<Rightarrow> exn + (real \<times> real) list" where
  "get_bounds mode =
     (if mode = ''tick'' then
        bounds_for [''threshold'', ''adapt_down'', ''adapt_up'', ''min_duration'']
      else if mode = ''corr'' then
        bounds_for [''confidence'', ''max_misses'']
      else if mode = ''marker'' then
        bounds_for [''marker_threshold'', ''marker_adapt_rate'', ''marker_min_duration'']
      else if mode = ''sync'' then
        bounds_for
          [''sync_weight_tick'', ''sync_weight_marker'', ''sync_weight_p_marker'',
           ''sync_weight_tick_hole'', ''sync_weight_combined'',
           ''sync_locked_threshold'', ''sync_min_retain'', ''sync_tentative_init'',
           ''sync_decay_normal'', ''sync_decay_recovering'',
           ''sync_tick_tolerance'', ''sync_marker_tolerance'', ''sync_p_marker_tolerance'']
      else
        bounds_for
          [''threshold'', ''adapt_down'', ''adapt_up'', ''min_duration'',
           ''confidence'', ''max_misses'',
           ''marker_threshold'', ''marker_adapt_rate'', ''marker_min_duration'',
           ''sync_weight_tick'', ''sync_weight_marker'', ''sync_weight_p_marker'',
           ''sync_weight_tick_hole'', ''sync_weight_combined'',
           ''sync_locked_threshold'', ''sync_min_retain'', ''sync_tentative_init'',
           ''sync_decay_normal'', ''sync_decay_recovering'',
           ''sync_tick_tolerance'', ''sync_marker_tolerance'', ''sync_p_marker_tolerance''])"

definition get_param_names :: "string \<Rightarrow> string list" where
  "get_param_names mode =
     (if mode = ''tick'' then [''threshold'', ''adapt_down'', ''adapt_up'', ''min_duration'']
      else if mode = ''corr'' then [''confidence'', ''max_misses'']
      else if mode = ''marker'' then [''marker_threshold'', ''marker_adapt_rate'', ''marker_min_duration'']
      else if mode = ''sync'' then
        [''sync_weight_tick'', ''sync_weight_marker'', ''sync_weight_p_marker'',
         ''sync_weight_tick_hole'', ''sync_weight_combined'',
         ''sync_locked_threshold'', ''sync_min_retain'', ''sync_tentative_init'',
         ''sync_decay_normal'', ''sync_decay_recovering'',
         ''sync_tick_tolerance'', ''sync_marker_tolerance'', ''sync_p_marker_tolerance'']
      else
        [''threshold'', ''adapt_down'', ''adapt_up'', ''min_duration'',
         ''confidence'', ''max_misses'',
         ''marker_threshold'', ''marker_adapt_rate'', ''marker_min_duration'',
         ''sync_weight_tick'', ''sync_weight_marker'', ''sync_weight_p_marker'',
         ''sync_weight_tick_hole'', ''sync_weight_combined'',
         ''sync_locked_threshold'', ''sync_min_retain'', ''sync_tentative_init'',
         ''sync_decay_normal'', ''sync_decay_recovering'',
         ''sync_tick_tolerance'', ''sync_marker_tolerance'', ''sync_p_marker_tolerance''])"

text \<open>\<open>__init__\<close> and \<open>connect\<close>.\<close>

definition WaterfallController_init :: "(nat \<Rightarrow> bool) \<Rightarrow> WaterfallController" where
  "WaterfallController_init lnk =
     \<lparr>wsocket = False,
      tick_params = \<lparr>tp_threshold = 0, tp_adapt_down = 0, tp_adapt_up = 0, tp_min_duration = 0\<rparr>,
      corr_params = \<lparr>cp_confidence = 8/10, cp_max_misses = 5\<rparr>,
      marker_params = \<lparr>mp_threshold = 3, mp_adapt_rate = 1/1000, mp_min_duration = 500\<rparr>,
      sync_params = \<lparr>sp_weight_tick = 5/100, sp_weight_marker = 40/100, sp_weight_p_marker = 15/100,
        sp_weight_tick_hole = 20/100, sp_weight_combined = 50/100,
        sp_locked_threshold = 70/100, sp_min_retain = 5/100, sp_tentative_init = 30/100,
        sp_decay_normal = 9999/10000, sp_decay_recovering = 98/100,
        sp_tick_tolerance = 100, sp_marker_tolerance = 500, sp_p_marker_tolerance = 200\<rparr>,
      sent = [], attempts = 0, link = lnk\<rparr>"

definition connect :: "WaterfallController \<Rightarrow> WaterfallController" where
  "connect s = s\<lparr>wsocket := True\<rparr>"

section \<open>telemetry\_listener.py\<close>

text \<open>
  A parsed dictionary keeps its insertion order: an association list, written with
  \<open>AList.update\<close> and read with \<open>map_of\<close>. A datagram is a list of bytes (\<open>char\<close> is a
  byte). The library functions \<open>bytes.decode('utf-8')\<close>, \<open>float(str)\<close> and \<open>int(str)\<close>
  are parameters \<open>dec\<close>, \<open>pf\<close> and \<open>pint\<close> of the parser; \<open>None\<close> is the exception they
  raise (\<open>UnicodeDecodeError\<close>, \<open>ValueError\<close>).
\<close>

type_synonym pdict = "(string \<times> pyval) list"

type_synonym bytes = "char list"

record TelemetryMessage =
  tm_channel :: string
  tm_timestamp :: real
  tm_data :: string
  tm_parsed :: pdict

text \<open>\<open>str.strip()\<close>: the whitespace of the first 256 code points.\<close>

definition is_space :: "char \<Rightarrow> bool" where
  "is_space c = (let n = (of_char c :: nat) in
     (9 \<le> n \<and> n \<le> 13) \<or> (28 \<le> n \<and> n \<le> 32) \<or> n = 133 \<or> n = 160)"

definition strip :: "string \<Rightarrow> string" where
  "strip s = rev (dropWhile is_space (rev (dropWhile is_space s)))"

text \<open>\<open>s.split(',')\<close> and \<open>s.split(',', 1)\<close>.\<close>

fun split_comma :: "string \<Rightarrow> string list" where
  "split_comma [] = [[]]"
| "split_comma (c # cs) =
     (if c = CHR '','' then [] # split_comma cs
      else (case split_comma cs of
              [] \<Rightarrow> [[c]]
            | w # ws \<Rightarrow> (c # w) # ws))"

definition split_comma1 :: "string \<Rightarrow> string list" where
  "split_comma1 s =
     (let a = takeWhile (\<lambda>c. c \<noteq> CHR '','') s; b = dropWhile (\<lambda>c. c \<noteq> CHR '','') s
      in (case b of [] \<Rightarrow> [a] | _ # rest \<Rightarrow> [a, rest]))"

text \<open>
  The body of a \<open>try\<close> block is a list of assignments to \<open>parsed\<close>, run in order; the
  state is the dictionary so far and the exception raised, if any. An assignment
  after the exception does not run, and the entries made before it stay.
\<close>

type_synonym trying = "pdict \<times> exn option"

definition assign_str :: "string \<Rightarrow> string \<Rightarrow> trying \<Rightarrow> trying" where
  "assign_str key field st =
     (case st of (d, Some e) \<Rightarrow> (d, Some e)
      | (d, None) \<Rightarrow> (AList.update key (PStr field) d, None))"

definition assign_float :: "(string \<Rightarrow> real option) \<Rightarrow> string \<Rightarrow> string \<Rightarrow> trying \<Rightarrow> trying" where
  "assign_float pf key field st =
     (case st of (d, Some e) \<Rightarrow> (d, Some e)
      | (d, None) \<Rightarrow>
          (if field = [] then (AList.update key (PFloat 0) d, None)
           else (case pf field of
                   None \<Rightarrow> (d, Some ValueError)
                 | Some x \<Rightarrow> (AList.update key (PFloat x) d, None))))"

definition assign_int :: "(string \<Rightarrow> int option) \<Rightarrow> string \<Rightarrow> string \<Rightarrow> trying \<Rightarrow> trying" where
  "assign_int pint key field st =
     (case st of (d, Some e) \<Rightarrow> (d, Some e)
      | (d, None) \<Rightarrow>
          (if field = [] then (AList.update key (PInt 0) d, None)
           else (case pint field of
                   None \<Rightarrow> (d, Some ValueError)
                 | Some n \<Rightarrow> (AList.update key (PInt n) d, None))))"

text \<open>\<open>parsed['interval_error_ms'] = abs(parsed['interval_ms'] - 1000.0)\<close>\<close>

definition assign_interval_error :: "trying \<Rightarrow> trying" where
  "assign_interval_error st =
     (case st of (d, Some e) \<Rightarrow> (d, Some e)
      | (d, None) \<Rightarrow>
          (case map_of d ''interval_ms'' of
             None \<Rightarrow> (d, Some KeyError)
           | Some (PFloat x) \<Rightarrow> (AList.update ''interval_error_ms'' (PFloat \<bar>x - 1000\<bar>) d, None)
           | Some (PInt n) \<Rightarrow> (AList.update ''interval_error_ms'' (PFloat \<bar>of_int n - 1000\<bar>) d, None)
           | Some (PStr _) \<Rightarrow> (d, Some TypeError)))"

definition run_steps :: "(trying \<Rightarrow> trying) list \<Rightarrow> trying \<Rightarrow> trying" where
  "run_steps steps st = foldl (\<lambda>acc step. step acc) st steps"

text \<open>\<open>except (ValueError, IndexError): pass\<close>: the dictionary so far is kept.\<close>

definition except_value_index :: "trying \<Rightarrow> exn + pdict" where
  "except_value_index st =
     (case st of (d, None) \<Rightarrow> Inr d
      | (d, Some e) \<Rightarrow> (if e = ValueError \<or> e = IndexError then Inr d else Inl e))"

text \<open>Outside a \<open>try\<close> block the exception leaves the function.\<close>

definition no_except :: "trying \<Rightarrow> exn + pdict" where
  "no_except st = (case st of (d, None) \<Rightarrow> Inr d | (d, Some e) \<Rightarrow> Inl e)"

definition parse_channel_data ::
  "(string \<Rightarrow> real option) \<Rightarrow> (string \<Rightarrow> int option) \<Rightarrow> string \<Rightarrow> string \<Rightarrow> exn + pdict" where
  "parse_channel_data pf pint channel dat =
     (let fields = (if dat \<noteq> [] then split_comma dat else []) in
      if channel = ''CORR'' then
        except_value_index
          (if length fields \<ge> 15 then
             run_steps
               [assign_str ''time_str'' (fields ! 0),
                assign_float pf ''timestamp_ms'' (fields ! 1),
                assign_int pint ''tick_num'' (fields ! 2),
                assign_str ''expected'' (fields ! 3),
                assign_float pf ''energy_peak'' (fields ! 4),
                assign_float pf ''duration_ms'' (fields ! 5),
                assign_float pf ''interval_ms'' (fields ! 6),
                assign_float pf ''avg_interval_ms'' (fields ! 7),
                assign_float pf ''noise_floor'' (fields ! 8),
                assign_float pf ''corr_peak'' (fields ! 9),
                assign_float pf ''corr_ratio'' (fields ! 10),
                assign_int pint ''chain_id'' (fields ! 11),
                assign_int pint ''chain_length'' (fields ! 12),
                assign_float pf ''chain_start_ms'' (fields ! 13),
                assign_float pf ''cumulative_drift_ms'' (fields ! 14),
                assign_interval_error]
               ([], None)
           else ([], None))
      else if channel = ''TICK'' then
        no_except
          (run_steps
             ((if length fields \<ge> 1 then [assign_str ''tick_type'' (fields ! 0)] else []) @
              (if length fields \<ge> 2 then [assign_int pint ''sample_offset'' (fields ! 1)] else []))
             ([], None))
      else if channel = ''CHAN'' then
        no_except
          (run_steps
             ((if length fields \<ge> 1 then [assign_float pf ''carrier_db'' (fields ! 0)] else []) @
              (if length fields \<ge> 2 then [assign_float pf ''snr_db'' (fields ! 1)] else []) @
              (if length fields \<ge> 3 then [assign_float pf ''noise_db'' (fields ! 2)] else []))
             ([], None))
      else if channel = ''RESP'' then
        no_except (assign_str ''response'' dat ([], None))
      else if channel = ''MARK'' then
        except_value_index
          (if length fields \<ge> 8 then
             run_steps
               [assign_str ''time_str'' (fields ! 0),
                assign_float pf ''timestamp_ms'' (fields ! 1),
                assign_int pint ''marker_num'' (fields ! 2),
                assign_float pf ''peak_energy'' (fields ! 3),
                assign_float pf ''duration_ms'' (fields ! 4),
                assign_float pf ''since_last_sec'' (fields ! 5),
                assign_str ''confidence'' (if length fields > 6 then fields ! 6 else ''UNKNOWN'')]
               ([], None)
           else ([], None))
      else if channel = ''SYNC'' then
        except_value_index
          (run_steps
             ((if length fields \<ge> 2 then
                 [assign_str ''state'' (fields ! 0), assign_float pf ''confidence'' (fields ! 1)]
               else []) @
              (if length fields \<ge> 3 then [assign_str ''reason'' (fields ! 2)] else []))
             ([], None))
      else Inr [])"

text \<open>
  \<open>_parse_message\<close>: the body of the \<open>try\<close>, then the handler \<open>except Exception: return None\<close>.
  \<open>now\<close> is the value \<open>time.time()\<close> returns.
\<close>

definition parse_message_body ::
  "(bytes \<Rightarrow> string option) \<Rightarrow> (string \<Rightarrow> real option) \<Rightarrow> (string \<Rightarrow> int option)
     \<Rightarrow> real \<Rightarrow> bytes \<Rightarrow> exn + TelemetryMessage option" where
  "parse_message_body dec pf pint now dat =
     (case dec dat of
        None \<Rightarrow> Inl UnicodeDecodeError
      | Some raw \<Rightarrow>
          (let text = strip raw in
           if text = [] then Inr None
           else
             (let parts = split_comma1 text in
              if length parts < 1 then Inr None
              else
                (let channel = parts ! 0;
                     csv_data = (if length parts > 1 then parts ! 1 else [])
                 in (case parse_channel_data pf pint channel csv_data of
                       Inl e \<Rightarrow> Inl e
                     | Inr parsed \<Rightarrow>
                         Inr (Some \<lparr>tm_channel = channel, tm_timestamp = now,
                                    tm_data = csv_data, tm_parsed = parsed\<rparr>))))))"

definition parse_message ::
  "(bytes \<Rightarrow> string option) \<Rightarrow> (string \<Rightarrow> real option) \<Rightarrow> (string \<Rightarrow> int option)
     \<Rightarrow> real \<Rightarrow> bytes \<Rightarrow> exn + TelemetryMessage option" where
  "parse_message dec pf pint now dat =
     (case parse_message_body dec pf pint now dat of
        Inl e \<Rightarrow> Inr None
      | Inr r \<Rightarrow> Inr r)"

text \<open>
  The listener's shared state. A marker event and a sync sample are the dictionaries
  the loop appends; their values keep the type the parsed dictionary gave them.
\<close>

record marker_event =
  me_timestamp :: real
  me_parsed :: pdict

record sync_sample =
  ss_timestamp :: real
  ss_state :: pyval
  ss_confidence :: pyval

record TelemetryListener =
  running :: bool
  latest :: "(string \<times> TelemetryMessage) list"
  marker_events :: "marker_event list"
  sync_states :: "sync_sample list"
  message_queue :: "TelemetryMessage list"

definition TelemetryListener_init :: TelemetryListener where
  "TelemetryListener_init =
     \<lparr>running = False, latest = [], marker_events = [], sync_states = [], message_queue = []\<rparr>"

text \<open>\<open>d.get(key, default)\<close>\<close>

definition dict_get :: "pdict \<Rightarrow> string \<Rightarrow> pyval \<Rightarrow> pyval" where
  "dict_get d key dflt = (case map_of d key of None \<Rightarrow> dflt | Some v \<Rightarrow> v)"

text \<open>
  The body of the loop for a message that parsed (\<open>if msg:\<close>). The queue holds at most
  1000 messages. The callback the controller registers (\<open>_on_telemetry\<close>) does nothing.
\<close>

definition store_message :: "TelemetryMessage \<Rightarrow> TelemetryListener \<Rightarrow> TelemetryListener" where
  "store_message msg L =
     (let L1 = L\<lparr>latest := AList.update (tm_channel msg) msg (latest L)\<rparr>;
          L2 = (if tm_channel msg = ''MARK'' \<and> tm_parsed msg \<noteq> [] then
                  L1\<lparr>marker_events := marker_events L1 @
                        [\<lparr>me_timestamp = tm_timestamp msg, me_parsed = tm_parsed msg\<rparr>]\<rparr>
                else L1);
          L3 = (if tm_channel msg = ''SYNC'' \<and> tm_parsed msg \<noteq> [] then
                  L2\<lparr>sync_states := sync_states L2 @
                        [\<lparr>ss_timestamp = tm_timestamp msg,
                          ss_state = dict_get (tm_parsed msg) ''state'' (PStr ''UNKNOWN''),
                          ss_confidence = dict_get (tm_parsed msg) ''confidence'' (PFloat 0)\<rparr>]\<rparr>
                else L2)
      in (if length (message_queue L3) < 1000
          then L3\<lparr>message_queue := message_queue L3 @ [msg]\<rparr>
          else L3))"

text \<open>
  What one pass of \<open>while self.running\<close> meets: a datagram (with the clock at its
  arrival), the one-second timeout, a socket error, or \<open>stop()\<close> clearing the flag from
  the other thread. \<open>listen_pass\<close> is one pass of the loop body, \<open>listen_loop\<close> the
  loop over a finite list of these; it gives the exception that ended the thread, if
  any, and the state the thread left.
\<close>

datatype recv = Datagram bytes real | Timeout | SocketError | Stop

definition listen_pass ::
  "(bytes \<Rightarrow> string option) \<Rightarrow> (string \<Rightarrow> real option) \<Rightarrow> (string \<Rightarrow> int option)
     \<Rightarrow> recv \<Rightarrow> TelemetryListener \<Rightarrow> exn + TelemetryListener" where
  "listen_pass dec pf pint ev L =
     (case ev of
        Datagram dat now \<Rightarrow>
          (case parse_message dec pf pint now dat of
             Inl e \<Rightarrow> Inl e
           | Inr None \<Rightarrow> Inr L
           | Inr (Some msg) \<Rightarrow> Inr (store_message msg L))
      | Timeout \<Rightarrow> Inr L
      | SocketError \<Rightarrow> (if running L then Inl OSError else Inr L)
      | Stop \<Rightarrow> Inr (L\<lparr>running := False\<rparr>))"

fun listen_loop ::
  "(bytes \<Rightarrow> string option) \<Rightarrow> (string \<Rightarrow> real option) \<Rightarrow> (string \<Rightarrow> int option)
     \<Rightarrow> recv list \<Rightarrow> TelemetryListener \<Rightarrow> exn option \<times> TelemetryListener" where
  "listen_loop dec pf pint [] L = (None, L)"
| "listen_loop dec pf pint (ev # evs) L =
     (if \<not> running L then (None, L)
      else (case listen_pass dec pf pint ev L of
              Inl e \<Rightarrow> (Some e, L)
            | Inr L' \<Rightarrow> listen_loop dec pf pint evs L'))"

definition get_latest :: "TelemetryListener \<Rightarrow> string \<Rightarrow> TelemetryMessage option" where
  "get_latest L channel = map_of (latest L) channel"

definition get_correlation_metrics :: "TelemetryListener \<Rightarrow> pdict" where
  "get_correlation_metrics L =
     (case get_latest L ''CORR'' of
        None \<Rightarrow> []
      | Some msg \<Rightarrow> (if tm_parsed msg \<noteq> [] then tm_parsed msg else []))"

definition clear_marker_events :: "TelemetryListener \<Rightarrow> TelemetryListener" where
  "clear_marker_events L = L\<lparr>marker_events := []\<rparr>"

definition get_marker_count :: "TelemetryListener \<Rightarrow> nat" where
  "get_marker_count L = length (marker_events L)"

definition clear_sync_states :: "TelemetryListener \<Rightarrow> TelemetryListener" where
  "clear_sync_states L = L\<lparr>sync_states := []\<rparr>"

text \<open>
  Arithmetic on a dictionary value: a float or an int is a number, a string raises
  \<open>TypeError\<close>. \<open>sum(xs)\<close> adds from the left.
\<close>

definition num :: "pyval \<Rightarrow> exn + real" where
  "num v = (case v of PFloat x \<Rightarrow> Inr x | PInt n \<Rightarrow> Inr (of_int n) | PStr _ \<Rightarrow> Inl TypeError)"

fun py_sum :: "pyval list \<Rightarrow> exn + real" where
  "py_sum [] = Inr 0"
| "py_sum (v # vs) =
     (case num v of
        Inl e \<Rightarrow> Inl e
      | Inr x \<Rightarrow> (case py_sum vs of Inl e \<Rightarrow> Inl e | Inr y \<Rightarrow> Inr (x + y)))"

record marker_metrics =
  mm_count :: nat
  mm_avg_duration_ms :: real
  mm_duration_variance :: real
  mm_avg_interval_sec :: real
  mm_interval_error_sec :: real

text \<open>\<open>for i in range(1, len(events)): intervals.append(events[i].timestamp - events[i-1].timestamp)\<close>\<close>

fun intervals_of :: "real list \<Rightarrow> real list" where
  "intervals_of (a # b # rest) = (b - a) # intervals_of (b # rest)"
| "intervals_of _ = []"

definition get_marker_metrics :: "TelemetryListener \<Rightarrow> exn + marker_metrics" where
  "get_marker_metrics L =
     (let events = marker_events L in
      if events = [] then
        Inr \<lparr>mm_count = 0, mm_avg_duration_ms = 0, mm_duration_variance = 0,
             mm_avg_interval_sec = 0, mm_interval_error_sec = 60\<rparr>
      else
        (let count = length events;
             durations = map (\<lambda>e. dict_get (me_parsed e) ''duration_ms'' (PInt 0)) events
         in (case py_sum durations of
               Inl e \<Rightarrow> Inl e
             | Inr tot \<Rightarrow>
                 (let avg_duration = (if count > 0 then tot / real count else 0);
                      duration_var =
                        (if count > 1 then
                           (\<Sum>v\<leftarrow>durations. (case num v of Inr d \<Rightarrow> (d - avg_duration)\<^sup>2 | Inl _ \<Rightarrow> 0))
                             / real count
                         else 0);
                      intervals = intervals_of (map me_timestamp events);
                      avg_interval =
                        (if intervals \<noteq> [] then sum_list intervals / real (length intervals) else 0);
                      interval_error =
                        (if intervals \<noteq> [] then \<bar>avg_interval - 60\<bar> else 60)
                  in Inr \<lparr>mm_count = count, mm_avg_duration_ms = avg_duration,
                          mm_duration_variance = duration_var,
                          mm_avg_interval_sec = avg_interval,
                          mm_interval_error_sec = interval_error\<rparr>))))"

record sync_metrics =
  sm_locked_pct :: real
  sm_avg_confidence :: real
  sm_state_changes :: nat
  sm_time_to_lock :: xreal

text \<open>
  The \<open>for i, s in enumerate(states)\<close> loop of \<open>get_sync_metrics\<close>, over the samples
  still to visit; the accumulator is \<open>(locked_time, total_time, time_to_lock)\<close>.
  The sample after \<open>s\<close> is the head of the rest; the last sample has none.
\<close>

fun sync_loop :: "real \<Rightarrow> sync_sample list \<Rightarrow> real \<times> real \<times> xreal \<Rightarrow> real \<times> real \<times> xreal" where
  "sync_loop start_time [] acc = acc"
| "sync_loop start_time (s # rest) (locked_time, total_time, time_to_lock) =
     (let time_to_lock' =
            (if ss_state s = PStr ''LOCKED'' \<and> time_to_lock = PInf
             then Fin (ss_timestamp s - start_time) else time_to_lock);
          duration = (case rest of
                        nxt # _ \<Rightarrow> ss_timestamp nxt - ss_timestamp s
                      | [] \<Rightarrow> 1/10);
          total_time' = total_time + duration;
          locked_time' = (if ss_state s = PStr ''LOCKED'' then locked_time + duration else locked_time)
      in sync_loop start_time rest (locked_time', total_time', time_to_lock'))"

text \<open>\<open>for i in range(1, len(states)): if states[i].state != states[i-1].state: state_changes += 1\<close>\<close>

fun count_changes :: "pyval list \<Rightarrow> nat" where
  "count_changes (a # b # rest) = (if b \<noteq> a then 1 else 0) + count_changes (b # rest)"
| "count_changes _ = 0"

definition get_sync_metrics :: "TelemetryListener \<Rightarrow> exn + sync_metrics" where
  "get_sync_metrics L =
     (let states = sync_states L in
      (case states of
         [] \<Rightarrow> Inr \<lparr>sm_locked_pct = 0, sm_avg_confidence = 0, sm_state_changes = 0,
                    sm_time_to_lock = PInf\<rparr>
       | first # _ \<Rightarrow>
           (case sync_loop (ss_timestamp first) states (0, 0, PInf) of
              (locked_time, total_time, time_to_lock) \<Rightarrow>
                (let locked_pct = (if total_time > 0 then locked_time / total_time * 100 else 0);
                     confidences = map ss_confidence states
                 in (case py_sum confidences of
                       Inl e \<Rightarrow> Inl e
                     | Inr tot \<Rightarrow>
                         Inr \<lparr>sm_locked_pct = locked_pct,
                              sm_avg_confidence = tot / real (length confidences),
                              sm_state_changes = count_changes (map ss_state states),
                              sm_time_to_lock = time_to_lock\<rparr>)))))"

section \<open>Instances of the library functions\<close>

text \<open>
  Concrete functions to put in place of \<open>dec\<close>, \<open>pf\<close> and \<open>pint\<close> when a datagram is
  evaluated: decoding of 7-bit datagrams (a byte from \<open>0x80\<close> on is refused), and the
  plain decimal numerals among those \<open>int()\<close> and \<open>float()\<close> accept: an optional sign,
  digits and, for a float, an optional point followed by digits.
\<close>

definition decode_ascii :: "bytes \<Rightarrow> string option" where
  "decode_ascii bs = (if list_all (\<lambda>c. (of_char c :: nat) < 128) bs then Some bs else None)"

definition is_digit :: "char \<Rightarrow> bool" where
  "is_digit c = (48 \<le> (of_char c :: nat) \<and> (of_char c :: nat) \<le> 57)"

definition digit_val :: "char \<Rightarrow> nat" where
  "digit_val c = of_char c - 48"

definition digits_val :: "string \<Rightarrow> nat" where
  "digits_val s = foldl (\<lambda>a c. 10 * a + digit_val c) 0 s"

definition dec_nat :: "string \<Rightarrow> nat option" where
  "dec_nat s = (if s \<noteq> [] \<and> list_all is_digit s then Some (digits_val s) else None)"

definition dec_int :: "string \<Rightarrow> int option" where
  "dec_int s =
     (case s of
        [] \<Rightarrow> None
      | c # r \<Rightarrow>
          (if c = CHR ''-'' then map_option (\<lambda>n. - int n) (dec_nat r)
           else if c = CHR ''+'' then map_option int (dec_nat r)
           else map_option int (dec_nat s)))"

definition dec_ufloat :: "string \<Rightarrow> real option" where
  "dec_ufloat s =
     (let ip = takeWhile (\<lambda>c. c \<noteq> CHR ''.'') s; rest = dropWhile (\<lambda>c. c \<noteq> CHR ''.'') s
      in (case rest of
            [] \<Rightarrow> map_option real (dec_nat ip)
          | _ # fp \<Rightarrow>
              (case dec_nat ip of
                 None \<Rightarrow> None
               | Some a \<Rightarrow>
                   (case dec_nat fp of
                      None \<Rightarrow> None
                    | Some b \<Rightarrow> Some (real a + real b / 10 ^ length fp)))))"

definition dec_float :: "string \<Rightarrow> real option" where
  "dec_float s =
     (case s of
        [] \<Rightarrow> None
      | c # r \<Rightarrow>
          (if c = CHR ''-'' then map_option uminus (dec_ufloat r)
           else if c = CHR ''+'' then dec_ufloat r
           else dec_ufloat s))"

text \<open>
  \<open>f"{x:.6f}"\<close> and \<open>f"{x:.2f}"\<close>: the value rounded to \<open>d\<close> decimals, ties to even, as a
  sign, the digits of the integer part, a point and \<open>d\<close> digits.
\<close>

definition round_half_even :: "real \<Rightarrow> int" where
  "round_half_even x =
     (let f = \<lfloor>x\<rfloor>; r = x - of_int f
      in if r < 1/2 then f else if r > 1/2 then f + 1 else if even f then f else f + 1)"

definition digit_char :: "nat \<Rightarrow> char" where
  "digit_char n = ''0123456789'' ! n"

fun digits_of :: "nat \<Rightarrow> string" where
  "digits_of n = (if n < 10 then [digit_char n] else digits_of (n div 10) @ [digit_char (n mod 10)])"

declare digits_of.simps [simp del]

fun fixed_digits :: "nat \<Rightarrow> nat \<Rightarrow> string" where
  "fixed_digits 0 m = []"
| "fixed_digits (Suc d) m = fixed_digits d (m div 10) @ [digit_char (m mod 10)]"

definition sign_prefix :: "bool \<Rightarrow> string" where
  "sign_prefix neg = (if neg then [CHR ''-''] else [])"

definition fmt_fixed :: "nat \<Rightarrow> real \<Rightarrow> string" where
  "fmt_fixed d x =
     (let a = nat \<bar>round_half_even (x * 10 ^ d)\<bar>
      in sign_prefix (x < 0) @ digits_of (a div 10 ^ d) @ [CHR ''.''] @ fixed_digits d (a mod 10 ^ d))"

text \<open>\<open>f"{n}"\<close> for an int.\<close>

definition fmt_int :: "int \<Rightarrow> string" where
  "fmt_int n = sign_prefix (n < 0) @ digits_of (nat \<bar>n\<bar>)"


section \<open>controller.py: the result store\<close>

text \<open>
  A configuration is what \<open>configparser\<close> holds: sections in file order, each a list
  of options in order. Option names pass through \<open>optionxform\<close> (lower case, here on
  the letters A to Z) when written and when looked up; section names do not.
  A file on disk is either a completely written configuration or the text a failed
  write left behind. The text of a configuration is \<open>ini_text\<close>; reading a completely
  written file gives the configuration back, and what \<open>configparser\<close> makes of a torn
  text is left to the parameter \<open>lib_read_torn\<close>.
\<close>

type_synonym ini_section = "(string \<times> string) list"

type_synonym config = "(string \<times> ini_section) list"

datatype disk_file = File config | Torn string

datatype io_failure = OpenFails | WriteFails nat

text \<open>
  What one call of \<open>_write_ini\<close> meets: the text \<open>time.strftime\<close> returns, and whether
  \<open>open(filepath, 'w')\<close> or the write raises (\<open>WriteFails k\<close>: after \<open>k\<close> characters reached
  the file).
\<close>

record write_env =
  we_clock :: string
  we_fail :: "io_failure option"

record pylib =
  lib_decode :: "bytes \<Rightarrow> string option"
  lib_float :: "string \<Rightarrow> real option"
  lib_int :: "string \<Rightarrow> int option"
  lib_read_torn :: "string \<Rightarrow> exn + config"

definition lower_char :: "char \<Rightarrow> char" where
  "lower_char c =
     (if 65 \<le> (of_char c :: nat) \<and> (of_char c :: nat) \<le> 90 then char_of ((of_char c :: nat) + 32) else c)"

definition lower :: "string \<Rightarrow> string" where
  "lower s = map lower_char s"

text \<open>\<open>if sect not in config: config[sect] = {}\<close>, \<open>config[sect][key] = val\<close> and the lookups.\<close>

definition ensure_section :: "string \<Rightarrow> config \<Rightarrow> config" where
  "ensure_section sect cfg = (if map_of cfg sect = None then cfg @ [(sect, [])] else cfg)"

definition set_opt :: "string \<Rightarrow> string \<Rightarrow> string \<Rightarrow> config \<Rightarrow> config" where
  "set_opt sect key val cfg = AList.map_entry sect (AList.update (lower key) val) cfg"

definition get_opt :: "config \<Rightarrow> string \<Rightarrow> string \<Rightarrow> string option" where
  "get_opt cfg sect key =
     (case map_of cfg sect of None \<Rightarrow> None | Some opts \<Rightarrow> map_of opts (lower key))"

text \<open>\<open>RawConfigParser.write\<close>: per section a header line, a line per option, an empty line.\<close>

definition option_line :: "string \<times> string \<Rightarrow> string" where
  "option_line kv = fst kv @ '' = '' @ snd kv @ [CHR 0x0A]"

definition section_text :: "string \<times> ini_section \<Rightarrow> string" where
  "section_text s = ''['' @ fst s @ '']'' @ [CHR 0x0A] @ concat (map option_line (snd s)) @ [CHR 0x0A]"

definition ini_text :: "config \<Rightarrow> string" where
  "ini_text cfg = concat (map section_text cfg)"

definition file_bytes :: "disk_file \<Rightarrow> string" where
  "file_bytes f = (case f of File cfg \<Rightarrow> ini_text cfg | Torn s \<Rightarrow> s)"

definition read_file :: "pylib \<Rightarrow> disk_file \<Rightarrow> exn + config" where
  "read_file lib f = (case f of File cfg \<Rightarrow> Inr cfg | Torn s \<Rightarrow> lib_read_torn lib s)"

text \<open>
  One block of \<open>_write_ini\<close>: the section is created when missing, then for each
  parameter present in \<open>param_dict\<close> its option is set to the formatted value.
\<close>

definition write_section ::
  "(string \<rightharpoonup> real) \<Rightarrow> string \<Rightarrow> (string \<times> string \<times> (real \<Rightarrow> string)) list \<Rightarrow> config \<Rightarrow> config" where
  "write_section param_dict sect entries cfg =
     foldl (\<lambda>c e. (case param_dict (fst e) of
                      None \<Rightarrow> c
                    | Some v \<Rightarrow> set_opt sect (fst (snd e)) (snd (snd e) v) c))
       (ensure_section sect cfg) entries"

definition tick_entries :: "(string \<times> string \<times> (real \<Rightarrow> string)) list" where
  "tick_entries =
     [(''threshold'', ''threshold_multiplier'', fmt_fixed 6),
      (''adapt_down'', ''adapt_alpha_down'', fmt_fixed 6),
      (''adapt_up'', ''adapt_alpha_up'', fmt_fixed 6),
      (''min_duration'', ''min_duration_ms'', fmt_fixed 2)]"

definition corr_entries :: "(string \<times> string \<times> (real \<Rightarrow> string)) list" where
  "corr_entries =
     [(''confidence'', ''epoch_confidence_threshold'', fmt_fixed 6),
      (''max_misses'', ''max_consecutive_misses'', (\<lambda>v. fmt_int (py_int v)))]"

definition marker_entries :: "(string \<times> string \<times> (real \<Rightarrow> string)) list" where
  "marker_entries =
     [(''marker_threshold'', ''threshold_multiplier'', fmt_fixed 6),
      (''marker_adapt_rate'', ''noise_adapt_rate'', fmt_fixed 6),
      (''marker_min_duration'', ''min_duration_ms'', fmt_fixed 2)]"

definition sync_entries :: "(string \<times> string \<times> (real \<Rightarrow> string)) list" where
  "sync_entries =
     [(''sync_weight_tick'', ''weight_tick'', fmt_fixed 6),
      (''sync_weight_marker'', ''weight_marker'', fmt_fixed 6),
      (''sync_weight_p_marker'', ''weight_p_marker'', fmt_fixed 6),
      (''sync_weight_tick_hole'', ''weight_tick_hole'', fmt_fixed 6),
      (''sync_weight_combined'', ''weight_combined_hole_marker'', fmt_fixed 6),
      (''sync_locked_threshold'', ''confidence_locked_threshold'', fmt_fixed 6),
      (''sync_min_retain'', ''confidence_min_retain'', fmt_fixed 6),
      (''sync_tentative_init'', ''confidence_tentative_init'', fmt_fixed 6),
      (''sync_decay_normal'', ''confidence_decay_normal'', fmt_fixed 6),
      (''sync_decay_recovering'', ''confidence_decay_recovering'', fmt_fixed 6),
      (''sync_tick_tolerance'', ''tick_phase_tolerance_ms'', fmt_fixed 2),
      (''sync_marker_tolerance'', ''marker_tolerance_ms'', fmt_fixed 2),
      (''sync_p_marker_tolerance'', ''p_marker_tolerance_ms'', fmt_fixed 2)]"

text \<open>
  The configuration \<open>_write_ini\<close> builds from the one it read (\<open>[]\<close> when the file does
  not exist): everything between reading the file and opening it for writing.
\<close>

definition write_ini_config ::
  "config \<Rightarrow> real list \<Rightarrow> string list \<Rightarrow> string \<Rightarrow> real \<Rightarrow> string \<Rightarrow> config" where
  "write_ini_config cfg params param_names mode score clock =
     (let param_dict = dict_of (zip param_names params);
          c1 = (if mode = ''tick'' \<or> mode = ''all''
                then write_section param_dict ''tick_detector'' tick_entries cfg else cfg);
          c2 = (if mode = ''corr'' \<or> mode = ''all''
                then write_section param_dict ''tick_correlator'' corr_entries c1 else c1);
          c3 = (if mode = ''marker'' \<or> mode = ''all''
                then write_section param_dict ''marker_detector'' marker_entries c2 else c2);
          c4 = (if mode = ''sync'' \<or> mode = ''all''
                then write_section param_dict ''sync_detector'' sync_entries c3 else c3);
          c5 = ensure_section ''optimization_meta'' c4;
          c6 = set_opt ''optimization_meta'' ''last_mode'' mode c5;
          c7 = set_opt ''optimization_meta'' ''last_score'' (fmt_fixed 6 score) c6;
          c8 = set_opt ''optimization_meta'' ''last_run'' clock c7;
          score_key = mode @ ''_best_score''
      in set_opt ''optimization_meta'' score_key (fmt_fixed 6 score) c8)"

text \<open>
  \<open>_write_ini\<close> on the file system. \<open>open(filepath, 'w')\<close> empties the file before
  anything is written, so a write that fails leaves the characters written so far.
  The result is the exception raised, if any, and the file system.
\<close>

type_synonym filesystem = "string \<rightharpoonup> disk_file"

definition write_ini ::
  "pylib \<Rightarrow> write_env \<Rightarrow> string \<Rightarrow> real list \<Rightarrow> string list \<Rightarrow> string \<Rightarrow> real
     \<Rightarrow> filesystem \<Rightarrow> exn option \<times> filesystem" where
  "write_ini lib env filepath params param_names mode score fs =
     (case (case fs filepath of None \<Rightarrow> Inr [] | Some f \<Rightarrow> read_file lib f) of
        Inl e \<Rightarrow> (Some e, fs)
      | Inr cfg \<Rightarrow>
          (let cfg' = write_ini_config cfg params param_names mode score (we_clock env)
           in (case we_fail env of
                 None \<Rightarrow> (None, fs(filepath \<mapsto> File cfg'))
               | Some OpenFails \<Rightarrow> (Some OSError, fs)
               | Some (WriteFails k) \<Rightarrow> (Some OSError, fs(filepath \<mapsto> Torn (take k (ini_text cfg')))))))"

text \<open>\<open>_get_existing_score\<close>; \<open>float('inf')\<close> is the default of the fallback.\<close>

definition get_existing_score :: "pylib \<Rightarrow> filesystem \<Rightarrow> string \<Rightarrow> string \<Rightarrow> exn + xreal option" where
  "get_existing_score lib fs filepath mode =
     (case fs filepath of
        None \<Rightarrow> Inr None
      | Some f \<Rightarrow>
          (case read_file lib f of
             Inl e \<Rightarrow> Inl e
           | Inr cfg \<Rightarrow>
               (let score_key = mode @ ''_best_score'';
                    by_key = (case get_opt cfg ''optimization_meta'' score_key of
                                None \<Rightarrow> None
                              | Some v \<Rightarrow> lib_float lib v)
                in (case by_key of
                      Some x \<Rightarrow> Inr (Some (Fin x))
                    | None \<Rightarrow>
                        (if map_of cfg ''optimization_meta'' \<noteq> None
                            \<and> get_opt cfg ''optimization_meta'' ''last_mode'' = Some mode
                         then (case get_opt cfg ''optimization_meta'' ''last_score'' of
                                 None \<Rightarrow> Inr (Some PInf)
                               | Some v \<Rightarrow> (case lib_float lib v of
                                              None \<Rightarrow> Inr None
                                            | Some x \<Rightarrow> Inr (Some (Fin x))))
                         else Inr None)))))"

definition ini_path :: string where
  "ini_path = ''../optimized_params.ini''"

definition last_run_path :: string where
  "last_run_path = ''../last_run.ini''"

text \<open>\<open>score < existing_score\<close> with a float that may be \<open>inf\<close>.\<close>

definition less_xreal :: "real \<Rightarrow> xreal \<Rightarrow> bool" where
  "less_xreal x y = (case y of PInf \<Rightarrow> True | Fin b \<Rightarrow> x < b)"

definition save_to_ini ::
  "pylib \<Rightarrow> write_env \<Rightarrow> write_env \<Rightarrow> real list \<Rightarrow> string list \<Rightarrow> string \<Rightarrow> real
     \<Rightarrow> filesystem \<Rightarrow> exn option \<times> filesystem" where
  "save_to_ini lib env1 env2 params param_names mode score fs =
     (case write_ini lib env1 last_run_path params param_names mode score fs of
        (Some e, fs1) \<Rightarrow> (Some e, fs1)
      | (None, fs1) \<Rightarrow>
          (case get_existing_score lib fs1 ini_path mode of
             Inl e \<Rightarrow> (Some e, fs1)
           | Inr existing_score \<Rightarrow>
               (if (case existing_score of None \<Rightarrow> True | Some ex \<Rightarrow> less_xreal score ex)
                then write_ini lib env2 ini_path params param_names mode score fs1
                else (None, fs1))))"

section \<open>controller.py: the optimization driver\<close>

text \<open>
  What one evaluation meets from outside: the datagrams the listener thread handles
  during \<open>time.sleep(settle_time)\<close>; for the marker and sync loops, one entry per pass
  with the value of \<open>time.time() - start_time\<close> read in that pass and the datagrams
  handled since the pass before; the elapsed time read when the marker score is
  computed; and what the two writes of \<open>save_to_ini\<close> meet.
\<close>

record eval_env =
  ev_settle :: "recv list"
  ev_polls :: "(real \<times> recv list) list"
  ev_final_elapsed :: real
  ev_write1 :: write_env
  ev_write2 :: write_env

record ControllerAgent =
  telemetry :: TelemetryListener
  waterfall :: WaterfallController
  optimization_running :: bool
  eval_count :: nat
  best_score :: xreal
  best_params :: "real list"
  opt_mode :: string
  settle_time :: real
  marker_eval_time :: real
  marker_count_target :: nat
  sync_eval_time :: real
  files :: filesystem

definition ControllerAgent_init :: "(nat \<Rightarrow> bool) \<Rightarrow> filesystem \<Rightarrow> ControllerAgent" where
  "ControllerAgent_init lnk fs =
     \<lparr>telemetry = TelemetryListener_init, waterfall = WaterfallController_init lnk,
      optimization_running = False, eval_count = 0, best_score = PInf, best_params = [],
      opt_mode = ''tick'', settle_time = 2, marker_eval_time = 180, marker_count_target = 3,
      sync_eval_time = 60, files = fs\<rparr>"

text \<open>\<open>start\<close>: the socket of the parameter client is created and the listener runs.\<close>

definition start :: "ControllerAgent \<Rightarrow> ControllerAgent" where
  "start A = A\<lparr>waterfall := connect (waterfall A), telemetry := (telemetry A)\<lparr>running := True\<rparr>\<rparr>"

text \<open>The listener thread handling datagrams while the driver sleeps.\<close>

definition absorb :: "pylib \<Rightarrow> recv list \<Rightarrow> TelemetryListener \<Rightarrow> TelemetryListener" where
  "absorb lib evs L = snd (listen_loop (lib_decode lib) (lib_float lib) (lib_int lib) evs L)"

text \<open>
  The block \<open># Track best\<close>, the same in the three objective functions: on a score
  below the best, the best is replaced and \<open>save_to_ini\<close> runs; an exception of
  \<open>save_to_ini\<close> leaves the objective function.
\<close>

definition track_best ::
  "pylib \<Rightarrow> eval_env \<Rightarrow> string \<Rightarrow> real \<Rightarrow> real list \<Rightarrow> ControllerAgent
     \<Rightarrow> (exn + real) \<times> ControllerAgent" where
  "track_best lib env mode score params A =
     (if less_xreal score (best_score A) then
        (let A1 = A\<lparr>best_score := Fin score, best_params := params\<rparr>;
             r = save_to_ini lib (ev_write1 env) (ev_write2 env) (best_params A1)
                   (get_param_names mode) mode score (files A1);
             A2 = A1\<lparr>files := snd r\<rparr>
         in (case fst r of Some e \<Rightarrow> (Inl e, A2) | None \<Rightarrow> (Inr score, A2)))
      else (Inr score, A))"

text \<open>
  The \<open>while True\<close> loop of \<open>marker_objective_function\<close>. \<open>None\<close>: the passes observed
  end before the loop does.
\<close>

fun marker_wait ::
  "pylib \<Rightarrow> nat \<Rightarrow> real \<Rightarrow> (real \<times> recv list) list \<Rightarrow> TelemetryListener \<Rightarrow> TelemetryListener option" where
  "marker_wait lib target eval_time [] L = None"
| "marker_wait lib target eval_time (p # rest) L =
     (let L' = absorb lib (snd p) L;
          elapsed = fst p;
          count = get_marker_count L'
      in if count \<ge> target then Some L'
         else if elapsed \<ge> eval_time then Some L'
         else marker_wait lib target eval_time rest L')"

definition marker_objective_function ::
  "pylib \<Rightarrow> eval_env \<Rightarrow> real list \<Rightarrow> ControllerAgent \<Rightarrow> ((exn + real) \<times> ControllerAgent) option" where
  "marker_objective_function lib env params A =
     (let A1 = A\<lparr>eval_count := eval_count A + 1\<rparr>;
          mode = ''marker'';
          A2 = A1\<lparr>waterfall := snd (set_parameters_from_array params mode (waterfall A1))\<rparr>;
          A3 = A2\<lparr>telemetry := clear_marker_events (telemetry A2)\<rparr>
      in (case marker_wait lib (marker_count_target A3) (marker_eval_time A3) (ev_polls env) (telemetry A3) of
            None \<Rightarrow> None
          | Some L \<Rightarrow>
              (let A4 = A3\<lparr>telemetry := L\<rparr> in
               (case get_marker_metrics L of
                  Inl e \<Rightarrow> Some (Inl e, A4)
                | Inr metrics \<Rightarrow>
                    (let count = mm_count metrics in
                     if count = 0 then Some (Inr 1000, A4)
                     else
                       (let expected = py_int (ev_final_elapsed env / 60) + 1;
                            detection_penalty = (real_of_int expected - real count) * 100;
                            interval_error = mm_interval_error_sec metrics * 10;
                            duration_var = mm_duration_variance metrics / 100;
                            avg_duration = mm_avg_duration_ms metrics;
                            duration_error = \<bar>avg_duration - 800\<bar> / 10;
                            score = detection_penalty + interval_error + duration_var + duration_error
                        in Some (track_best lib env mode score params A4)))))))"

text \<open>
  The \<open>while True\<close> loop of \<open>sync_objective_function\<close>: every pass whose whole second is
  a positive multiple of 15 reads \<open>get_sync_metrics\<close> for the progress line.
\<close>

fun sync_wait ::
  "pylib \<Rightarrow> real \<Rightarrow> (real \<times> recv list) list \<Rightarrow> TelemetryListener \<Rightarrow> (exn + TelemetryListener) option" where
  "sync_wait lib eval_time [] L = None"
| "sync_wait lib eval_time (p # rest) L =
     (let L' = absorb lib (snd p) L;
          elapsed = fst p;
          progress = (if py_int elapsed mod 15 = 0 \<and> py_int elapsed > 0
                      then (case get_sync_metrics L' of Inl e \<Rightarrow> Some e | Inr _ \<Rightarrow> None)
                      else None)
      in (case progress of
            Some e \<Rightarrow> Some (Inl e)
          | None \<Rightarrow>
              (if elapsed \<ge> eval_time then Some (Inr L')
               else sync_wait lib eval_time rest L')))"

text \<open>\<open>min(time_to_lock, 60.0)\<close>\<close>

definition min_xreal :: "xreal \<Rightarrow> real \<Rightarrow> real" where
  "min_xreal x b = (case x of PInf \<Rightarrow> b | Fin a \<Rightarrow> min a b)"

definition sync_objective_function ::
  "pylib \<Rightarrow> eval_env \<Rightarrow> real list \<Rightarrow> ControllerAgent \<Rightarrow> ((exn + real) \<times> ControllerAgent) option" where
  "sync_objective_function lib env params A =
     (let A1 = A\<lparr>eval_count := eval_count A + 1\<rparr>;
          mode = ''sync'';
          A2 = A1\<lparr>waterfall := snd (set_parameters_from_array params mode (waterfall A1))\<rparr>;
          A3 = A2\<lparr>telemetry := clear_sync_states (telemetry A2)\<rparr>
      in (case sync_wait lib (sync_eval_time A3) (ev_polls env) (telemetry A3) of
            None \<Rightarrow> None
          | Some (Inl e) \<Rightarrow> Some (Inl e, A3)
          | Some (Inr L) \<Rightarrow>
              (let A4 = A3\<lparr>telemetry := L\<rparr> in
               (case get_sync_metrics L of
                  Inl e \<Rightarrow> Some (Inl e, A4)
                | Inr metrics \<Rightarrow>
                    (let locked_pct = sm_locked_pct metrics;
                         avg_confidence = sm_avg_confidence metrics;
                         state_changes = sm_state_changes metrics;
                         time_to_lock = sm_time_to_lock metrics;
                         pct_penalty = 100 - locked_pct;
                         stability_penalty = real state_changes * 2;
                         lock_time_penalty = min_xreal time_to_lock 60 / 6;
                         confidence_bonus = avg_confidence * 5;
                         score = pct_penalty + stability_penalty + lock_time_penalty - confidence_bonus
                     in Some (track_best lib env mode score params A4))))))"

text \<open>
  \<open>objective_function\<close>. The metrics are the parsed dictionary of the latest CORR
  message; arithmetic on a string value raises \<open>TypeError\<close>.
\<close>

definition objective_function ::
  "pylib \<Rightarrow> eval_env \<Rightarrow> real list \<Rightarrow> ControllerAgent \<Rightarrow> ((exn + real) \<times> ControllerAgent) option" where
  "objective_function lib env params A =
     (let mode = opt_mode A in
      if mode = ''marker'' then marker_objective_function lib env params A
      else if mode = ''sync'' then sync_objective_function lib env params A
      else
        (let A1 = A\<lparr>eval_count := eval_count A + 1\<rparr>;
             A2 = A1\<lparr>waterfall := snd (set_parameters_from_array params mode (waterfall A1))\<rparr>;
             A3 = A2\<lparr>telemetry := absorb lib (ev_settle env) (telemetry A2)\<rparr>;
             metrics = get_correlation_metrics (telemetry A3)
         in if metrics = [] then Some (Inr 1000, A3)
            else
              (case (num (dict_get metrics ''interval_error_ms'' (PFloat 1000)),
                     num (dict_get metrics ''cumulative_drift_ms'' (PFloat 0)),
                     num (dict_get metrics ''chain_length'' (PInt 0)),
                     num (dict_get metrics ''corr_ratio'' (PFloat 0))) of
                 (Inr interval_error, Inr d, Inr chain_length, Inr corr_ratio) \<Rightarrow>
                   (let drift = \<bar>d\<bar>;
                        chain_bonus = min (chain_length * (1/10)) 5;
                        corr_penalty = max 0 ((1 - corr_ratio) * 2);
                        variance = interval_error + drift * (1/10) - chain_bonus + corr_penalty
                    in Some (track_best lib env mode variance params A3))
               | _ \<Rightarrow> Some (Inl TypeError, A3))))"

text \<open>
  \<open>optimize\<close>. \<open>scipy.optimize.minimize\<close> is the parameter \<open>minimize\<close>: given the
  objective, the start vector, the method, the bounds (none for Nelder-Mead), the
  iteration limit and the agent, it returns its result or the exception it raises,
  and the agent as its evaluations left it. The \<open>n\<close>-th evaluation of a run meets
  \<open>world n\<close>.
\<close>

record OptimizeResult =
  res_success :: bool
  res_x :: "real list"

record optimize_result =
  or_success :: bool
  or_params :: "real list"
  or_param_names :: "string list"
  or_mode :: string
  or_score :: xreal
  or_iterations :: nat
  or_scipy_result :: OptimizeResult

type_synonym objective = "real list \<Rightarrow> ControllerAgent \<Rightarrow> ((exn + real) \<times> ControllerAgent) option"

type_synonym minimizer =
  "objective \<Rightarrow> real list \<Rightarrow> string \<Rightarrow> (real \<times> real) list option \<Rightarrow> nat \<Rightarrow> ControllerAgent
     \<Rightarrow> ((exn + OptimizeResult) \<times> ControllerAgent) option"

definition run_objective :: "pylib \<Rightarrow> (nat \<Rightarrow> eval_env) \<Rightarrow> objective" where
  "run_objective lib world params A = objective_function lib (world (eval_count A + 1)) params A"

definition optimize ::
  "pylib \<Rightarrow> (nat \<Rightarrow> eval_env) \<Rightarrow> minimizer \<Rightarrow> real list option \<Rightarrow> string \<Rightarrow> nat \<Rightarrow> string
     \<Rightarrow> ControllerAgent \<Rightarrow> ((exn + optimize_result) \<times> ControllerAgent) option" where
  "optimize lib world minimize initial_params method max_iterations mode A =
     (let A0 = A\<lparr>opt_mode := mode\<rparr> in
      (case get_bounds mode of
         Inl e \<Rightarrow> Some (Inl e, A0)
       | Inr bounds \<Rightarrow>
           (let initial = (case initial_params of
                             None \<Rightarrow> map (\<lambda>b. (fst b + snd b) / 2) bounds
                           | Some ps \<Rightarrow> ps);
                x0 = initial;
                A1 = A0\<lparr>optimization_running := True, eval_count := 0, best_score := PInf,
                        best_params := initial\<rparr>
            in (case minimize (run_objective lib world) x0 method
                       (if method = ''Nelder-Mead'' then None else Some bounds) max_iterations A1 of
                  None \<Rightarrow> None
                | Some (outcome, A2) \<Rightarrow>
                    (let A3 = A2\<lparr>optimization_running := False\<rparr> in
                     (case outcome of
                        Inl e \<Rightarrow> Some (Inl e, A3)
                      | Inr result \<Rightarrow>
                          (let A4 = A3\<lparr>waterfall :=
                                 snd (set_parameters_from_array (best_params A3) mode (waterfall A3))\<rparr>
                           in Some (Inr \<lparr>or_success = res_success result,
                                         or_params = best_params A4,
                                         or_param_names = get_param_names mode,
                                         or_mode = mode,
                                         or_score = best_score A4,
                                         or_iterations = eval_count A4,
                                         or_scipy_result = result\<rparr>, A4))))))))"

section \<open>Well-formed CORR field lists\<close>

text \<open>
  A numeric field is accepted when it is empty (the source then stores zero) or when
  the conversion does not raise; \<open>float_of\<close> and \<open>int_of\<close> are the values the source
  stores for an accepted field. A CORR field list is well formed when it has at least
  15 fields and each of its float fields (1, 4 to 10, 13, 14) and int fields (2, 11,
  12) is accepted.
\<close>

definition float_ok :: "(string \<Rightarrow> real option) \<Rightarrow> string \<Rightarrow> bool" where
  "float_ok pf field = (field = [] \<or> (case pf field of None \<Rightarrow> False | Some _ \<Rightarrow> True))"

definition int_ok :: "(string \<Rightarrow> int option) \<Rightarrow> string \<Rightarrow> bool" where
  "int_ok pint field = (field = [] \<or> (case pint field of None \<Rightarrow> False | Some _ \<Rightarrow> True))"

definition float_of :: "(string \<Rightarrow> real option) \<Rightarrow> string \<Rightarrow> real" where
  "float_of pf field = (if field = [] then 0 else (case pf field of Some x \<Rightarrow> x | None \<Rightarrow> 0))"

definition int_of :: "(string \<Rightarrow> int option) \<Rightarrow> string \<Rightarrow> int" where
  "int_of pint field = (if field = [] then 0 else (case pint field of Some n \<Rightarrow> n | None \<Rightarrow> 0))"

definition corr_well_formed ::
  "(string \<Rightarrow> real option) \<Rightarrow> (string \<Rightarrow> int option) \<Rightarrow> string list \<Rightarrow> bool" where
  "corr_well_formed pf pint flds =
     (length flds \<ge> 15
      \<and> list_all (\<lambda>i. float_ok pf (flds ! i)) [1, 4, 5, 6, 7, 8, 9, 10, 13, 14]
      \<and> list_all (\<lambda>i. int_ok pint (flds ! i)) [2, 11, 12])"

section \<open>Concrete surroundings\<close>

text \<open>
  A library instance, an agent after \<open>start()\<close> on an empty directory with a link that
  never fails, a quiet network and a disk that takes every write, and two minimizers:
  one that evaluates the start vector once and reports success, one that raises
  before its first evaluation.
\<close>

definition lib0 :: pylib where
  "lib0 = \<lparr>lib_decode = decode_ascii, lib_float = dec_float, lib_int = dec_int,
           lib_read_torn = (\<lambda>s. Inl ConfigParserError)\<rparr>"

definition agent0 :: ControllerAgent where
  "agent0 = start (ControllerAgent_init (\<lambda>n. True) Map.empty)"

definition clock0 :: string where
  "clock0 = ''2025-01-01 00:00:00''"

definition clock1 :: string where
  "clock1 = ''2025-01-01 00:00:01''"

definition quiet_env :: eval_env where
  "quiet_env = \<lparr>ev_settle = [], ev_polls = [(0, []), (180, [])], ev_final_elapsed = 180,
       ev_write1 = \<lparr>we_clock = clock0, we_fail = None\<rparr>,
       ev_write2 = \<lparr>we_clock = clock0, we_fail = None\<rparr>\<rparr>"

definition one_step_minimizer :: minimizer where
  "one_step_minimizer obj x0 method bnds max_iterations A =
     (case obj x0 A of
        None \<Rightarrow> None
      | Some (Inl e, A') \<Rightarrow> Some (Inl e, A')
      | Some (Inr y, A') \<Rightarrow> Some (Inr \<lparr>res_success = True, res_x = x0\<rparr>, A'))"

definition raising_minimizer :: minimizer where
  "raising_minimizer obj x0 method bnds max_iterations A =
     Some (Inl (MinimizerError ''interrupted''), A)"

definition idle_minimizer :: minimizer where
  "idle_minimizer obj x0 method bnds max_iterations A =
     Some (Inr \<lparr>res_success = False, res_x = x0\<rparr>, A)"

text \<open>A record file as an earlier run in tick mode left it.\<close>

definition old_config :: config where
  "old_config =
     [(''tick_detector'', [(''threshold_multiplier'', ''3.000000'')]),
      (''optimization_meta'',
         [(''last_mode'', ''tick''), (''last_score'', ''2.000000''),
          (''last_run'', ''2025-01-01 00:00:00''), (''tick_best_score'', ''2.000000'')])]"

section \<open>Sequences of result store calls\<close>






text \<open>
  A tick parameter vector, a score that six decimals round upwards, and the
  configuration a first write of the two in tick mode produces.
\<close>

definition tick_vector :: "real list" where
  "tick_vector = [3, 19/20, 1/20, 5]"

definition rounded_up_score :: real where
  "rounded_up_score = 6 / 10 ^ 7"

definition first_config :: "string \<Rightarrow> config" where
  "first_config clock =
     [(''tick_detector'',
         [(''threshold_multiplier'', ''3.000000''), (''adapt_alpha_down'', ''0.950000''),
          (''adapt_alpha_up'', ''0.050000''), (''min_duration_ms'', ''5.00'')]),
      (''optimization_meta'',
         [(''last_mode'', ''tick''), (''last_score'', ''0.000001''),
          (''last_run'', clock), (''tick_best_score'', ''0.000001'')])]"

section \<open>Evaluations and what they receive\<close>

text \<open>
  The channel of a datagram is the text before its first comma, after decoding and
  \<open>strip()\<close>. A list of loop events is quiet on a channel when none of its datagrams
  carries that channel; the passes of a wait loop are quiet when each of them is, and
  they reach a time when a pass reads at least that elapsed time.
\<close>

definition datagram_channel :: "(bytes \<Rightarrow> string option) \<Rightarrow> bytes \<Rightarrow> string option" where
  "datagram_channel dec dat =
     (case dec dat of
        None \<Rightarrow> None
      | Some raw \<Rightarrow> Some (takeWhile (\<lambda>c. c \<noteq> CHR '','') (strip raw)))"

definition carries :: "pylib \<Rightarrow> string \<Rightarrow> recv \<Rightarrow> bool" where
  "carries lib ch ev =
     (case ev of
        Datagram dat now \<Rightarrow> datagram_channel (lib_decode lib) dat = Some ch
      | _ \<Rightarrow> False)"

definition quiet_on :: "pylib \<Rightarrow> string \<Rightarrow> recv list \<Rightarrow> bool" where
  "quiet_on lib ch evs = list_all (\<lambda>ev. \<not> carries lib ch ev) evs"

definition polls_quiet_on :: "pylib \<Rightarrow> string \<Rightarrow> (real \<times> recv list) list \<Rightarrow> bool" where
  "polls_quiet_on lib ch polls = list_all (\<lambda>p. quiet_on lib ch (snd p)) polls"

definition polls_reach :: "real \<Rightarrow> (real \<times> recv list) list \<Rightarrow> bool" where
  "polls_reach eval_time polls = list_ex (\<lambda>p. eval_time \<le> fst p) polls"

text \<open>
  Whether the evaluation that led from \<open>A\<close> to \<open>A'\<close> got past the check for missing
  telemetry: in marker mode a marker event is buffered, in tick, corr and all mode the
  latest CORR message has a non-empty parsed dictionary; the sync mode has no such
  check. \<open>same_best\<close>: the best score, the best parameters and the files are the same.
\<close>

definition score_computed :: "ControllerAgent \<Rightarrow> ControllerAgent \<Rightarrow> bool" where
  "score_computed A A' =
     (if opt_mode A = ''marker'' then marker_events (telemetry A') \<noteq> []
      else if opt_mode A = ''sync'' then True
      else get_correlation_metrics (telemetry A') \<noteq> [])"

definition same_best :: "ControllerAgent \<Rightarrow> ControllerAgent \<Rightarrow> bool" where
  "same_best A A' = (best_score A' = best_score A \<and> best_params A' = best_params A \<and> files A' = files A)"

text \<open>A file that is absent or completely written.\<close>

definition intact :: "filesystem \<Rightarrow> string \<Rightarrow> bool" where
  "intact fs p = (case fs p of None \<Rightarrow> True | Some (File cfg) \<Rightarrow> True | Some (Torn s) \<Rightarrow> False)"

text \<open>
  A CORR datagram with an interval of 5000 ms, the dictionary \<open>_parse_channel_data\<close>
  makes of it, and an evaluation during whose settle time it arrives.
\<close>

definition corr_sample :: bytes where
  "corr_sample = ''CORR,t,1,1,1,1,1,5000,1,1,1,1,1,1,1,1''"

definition corr_sample_parsed :: pdict where
  "corr_sample_parsed =
     [(''time_str'', PStr ''t''), (''timestamp_ms'', PFloat 1), (''tick_num'', PInt 1),
      (''expected'', PStr ''1''), (''energy_peak'', PFloat 1), (''duration_ms'', PFloat 1),
      (''interval_ms'', PFloat 5000), (''avg_interval_ms'', PFloat 1), (''noise_floor'', PFloat 1),
      (''corr_peak'', PFloat 1), (''corr_ratio'', PFloat 1), (''chain_id'', PInt 1),
      (''chain_length'', PInt 1), (''chain_start_ms'', PFloat 1), (''cumulative_drift_ms'', PFloat 1),
      (''interval_error_ms'', PFloat 4000)]"

definition sample_env :: eval_env where
  "sample_env = quiet_env\<lparr>ev_settle := [Datagram corr_sample 100]\<rparr>"

section \<open>Properties of the parameter client\<close>

text \<open>
  C10. A mode string outside \<open>tick\<close>, \<open>corr\<close>, \<open>marker\<close>, \<open>sync\<close> is treated exactly as
  \<open>all\<close> by \<open>get_param_names\<close>, \<open>get_bounds\<close> and \<open>set_parameters_from_array\<close>: the names
  are the four families' lists one after the other, 22 in all, the bounds are the four
  families' bounds one after the other, no exception is raised, and the vector is
  mapped to those 22 names.
\<close>

theorem unknown_mode_is_all:
  assumes "mode \<notin> {''tick'', ''corr'', ''marker'', ''sync''}"
  shows "get_param_names mode = get_param_names ''all''
       \<and> get_param_names mode =
           get_param_names ''tick'' @ get_param_names ''corr'' @ get_param_names ''marker'' @ get_param_names ''sync''
       \<and> length (get_param_names mode) = 22
       \<and> get_bounds mode = get_bounds ''all''
       \<and> (\<exists>bt bc bm bs. get_bounds ''tick'' = Inr bt \<and> get_bounds ''corr'' = Inr bc
            \<and> get_bounds ''marker'' = Inr bm \<and> get_bounds ''sync'' = Inr bs
            \<and> get_bounds mode = Inr (bt @ bc @ bm @ bs) \<and> length (bt @ bc @ bm @ bs) = 22)
       \<and> set_parameters_from_array vals mode s = set_parameters_from_array vals ''all'' s
       \<and> set_parameters_from_array vals mode s =
           set_parameters (dict_of (zip (get_param_names ''tick'' @ get_param_names ''corr''
              @ get_param_names ''marker'' @ get_param_names ''sync'') vals)) s"
proof -
  from assms have m: "mode \<noteq> ''tick''" "mode \<noteq> ''corr''" "mode \<noteq> ''marker''" "mode \<noteq> ''sync''"
    by auto
  have n1: "get_param_names mode = get_param_names ''all''"
    using m by (simp add: get_param_names_def)
  have n2: "get_param_names ''all'' =
      get_param_names ''tick'' @ get_param_names ''corr'' @ get_param_names ''marker'' @ get_param_names ''sync''"
    by (simp add: get_param_names_def)
  have n3: "length (get_param_names ''all'') = 22"
    by (simp add: get_param_names_def)
  have b1: "get_bounds mode = get_bounds ''all''"
    using m by (simp add: get_bounds_def)
  have b2: "\<exists>bt bc bm bs. get_bounds ''tick'' = Inr bt \<and> get_bounds ''corr'' = Inr bc
            \<and> get_bounds ''marker'' = Inr bm \<and> get_bounds ''sync'' = Inr bs
            \<and> get_bounds ''all'' = Inr (bt @ bc @ bm @ bs) \<and> length (bt @ bc @ bm @ bs) = 22"
    by (simp add: get_bounds_def PARAM_BOUNDS_def)
  have s1: "set_parameters_from_array vals mode s = set_parameters_from_array vals ''all'' s"
    using m by (simp add: set_parameters_from_array_def)
  have s2: "set_parameters_from_array vals ''all'' s =
           set_parameters (dict_of (zip (get_param_names ''tick'' @ get_param_names ''corr''
              @ get_param_names ''marker'' @ get_param_names ''sync'') vals)) s"
    by (simp add: set_parameters_from_array_def get_param_names_def)
  show ?thesis using n1 n2 n3 b1 b2 s1 s2 by simp
qed

theorem unknown_mode_is_all_witness:
  "''bogus'' \<notin> {''tick'', ''corr'', ''marker'', ''sync''}
   \<and> get_param_names ''bogus'' = get_param_names ''all''
   \<and> length (get_param_names ''bogus'') = 22
   \<and> get_bounds ''bogus'' = get_bounds ''all''
   \<and> set_parameters_from_array [3, 1/2] ''bogus'' (connect (WaterfallController_init (\<lambda>_. True)))
       = set_parameters_from_array [3, 1/2] ''all'' (connect (WaterfallController_init (\<lambda>_. True)))"
proof -
  have h: "''bogus'' \<notin> {''tick'', ''corr'', ''marker'', ''sync''}" by simp
  from unknown_mode_is_all [OF h, of "[3, 1/2]" "connect (WaterfallController_init (\<lambda>_. True))"]
  show ?thesis using h by blast
qed

section \<open>Properties of the metric aggregator\<close>

text \<open>
  C1. The sample buffer of the specification's example: \<open>(t=0, SEARCHING, 0.1)\<close>,
  \<open>(t=10, LOCKED, 0.8)\<close>, \<open>(t=40, LOCKED, 0.75)\<close>. The dwell times are 10, 30 and the
  fixed 0.1 of the last sample, so the locked time is 30.1 of 40.1 seconds:
  \<open>locked_pct\<close> is \<open>30100/401\<close> (about 75.06), with one state change and a time to lock
  of 10.
\<close>

theorem sync_metrics_example:
  "get_sync_metrics (TelemetryListener_init\<lparr>sync_states :=
       [\<lparr>ss_timestamp = 0, ss_state = PStr ''SEARCHING'', ss_confidence = PFloat (1/10)\<rparr>,
        \<lparr>ss_timestamp = 10, ss_state = PStr ''LOCKED'', ss_confidence = PFloat (8/10)\<rparr>,
        \<lparr>ss_timestamp = 40, ss_state = PStr ''LOCKED'', ss_confidence = PFloat (75/100)\<rparr>]\<rparr>)
     = Inr \<lparr>sm_locked_pct = 30100/401, sm_avg_confidence = 11/20, sm_state_changes = 1,
            sm_time_to_lock = Fin 10\<rparr>"
  by (simp add: get_sync_metrics_def TelemetryListener_init_def num_def)

text \<open>
  The claim as stated, with \<open>locked_pct = 75.0\<close>, does not hold of the value computed
  for that buffer.
\<close>

theorem sync_metrics_example_not_75:
  "\<not> (\<exists>m. get_sync_metrics (TelemetryListener_init\<lparr>sync_states :=
       [\<lparr>ss_timestamp = 0, ss_state = PStr ''SEARCHING'', ss_confidence = PFloat (1/10)\<rparr>,
        \<lparr>ss_timestamp = 10, ss_state = PStr ''LOCKED'', ss_confidence = PFloat (8/10)\<rparr>,
        \<lparr>ss_timestamp = 40, ss_state = PStr ''LOCKED'', ss_confidence = PFloat (75/100)\<rparr>]\<rparr>) = Inr m
        \<and> sm_locked_pct m = 75 \<and> sm_state_changes m = 1 \<and> sm_time_to_lock m = Fin 10)"
  by (simp add: get_sync_metrics_def TelemetryListener_init_def num_def)

section \<open>Properties of the telemetry parser\<close>

lemma assign_float_ok:
  "float_ok pf field \<Longrightarrow>
     assign_float pf key field (d, None) = (AList.update key (PFloat (float_of pf field)) d, None)"
  by (auto simp: assign_float_def float_ok_def float_of_def split: option.splits)

lemma assign_int_ok:
  "int_ok pint field \<Longrightarrow>
     assign_int pint key field (d, None) = (AList.update key (PInt (int_of pint field)) d, None)"
  by (auto simp: assign_int_def int_ok_def int_of_def split: option.splits)

lemma assign_str_ok: "assign_str key field (d, None) = (AList.update key (PStr field) d, None)"
  by (simp add: assign_str_def)

text \<open>
  C7. For every CORR datagram whose field list is well formed (at least 15 fields,
  every numeric field empty or convertible), the parsed dictionary holds \<open>interval_ms\<close>,
  the value of field 6, and \<open>interval_error_ms\<close>, the absolute value of
  \<open>interval_ms - 1000\<close>.
\<close>

theorem corr_interval_error:
  assumes "dat \<noteq> []" and "corr_well_formed pf pint (split_comma dat)"
  shows "\<exists>d. parse_channel_data pf pint ''CORR'' dat = Inr d
           \<and> map_of d ''interval_ms'' = Some (PFloat (float_of pf (split_comma dat ! 6)))
           \<and> map_of d ''interval_error_ms'' = Some (PFloat \<bar>float_of pf (split_comma dat ! 6) - 1000\<bar>)"
  using assms
  by (simp add: parse_channel_data_def corr_well_formed_def run_steps_def
      assign_float_ok assign_int_ok assign_str_ok assign_interval_error_def except_value_index_def Let_def)

lemma dec_float_eval: "dec_float ''1000.5'' = Some (2001/2)" "dec_float ''1'' = Some 1"
  by (simp_all add: dec_float_def dec_ufloat_def dec_nat_def is_digit_def digits_val_def digit_val_def)

lemma dec_int_eval: "dec_int ''3'' = Some 3" "dec_int ''1'' = Some 1" "dec_int ''x'' = None"
  by (simp_all add: dec_int_def dec_nat_def is_digit_def digits_val_def digit_val_def)

theorem corr_interval_error_witness:
  "''t,1,3,1,1,1,1000.5,1,1,1,1,1,1,1,1'' \<noteq> []
   \<and> corr_well_formed dec_float dec_int (split_comma ''t,1,3,1,1,1,1000.5,1,1,1,1,1,1,1,1'')
   \<and> (\<exists>d. parse_channel_data dec_float dec_int ''CORR'' ''t,1,3,1,1,1,1000.5,1,1,1,1,1,1,1,1'' = Inr d
        \<and> map_of d ''interval_ms'' = Some (PFloat (2001/2))
        \<and> map_of d ''interval_error_ms'' = Some (PFloat (1/2)))"
proof -
  let ?dat = "''t,1,3,1,1,1,1000.5,1,1,1,1,1,1,1,1''"
  have n: "?dat \<noteq> []" by simp
  have w: "corr_well_formed dec_float dec_int (split_comma ?dat)"
    by (simp add: corr_well_formed_def float_ok_def int_ok_def dec_float_eval dec_int_eval)
  have v: "float_of dec_float (split_comma ?dat ! 6) = 2001/2"
    by (simp add: float_of_def dec_float_eval)
  from corr_interval_error [OF n w] obtain d where
    d: "parse_channel_data dec_float dec_int ''CORR'' ?dat = Inr d"
       "map_of d ''interval_ms'' = Some (PFloat (float_of dec_float (split_comma ?dat ! 6)))"
       "map_of d ''interval_error_ms'' = Some (PFloat \<bar>float_of dec_float (split_comma ?dat ! 6) - 1000\<bar>)"
    by blast
  have e1: "map_of d ''interval_ms'' = Some (PFloat (2001/2))"
    using d(2) unfolding v .
  have e2: "map_of d ''interval_error_ms'' = Some (PFloat (1/2))"
    using d(3) unfolding v by simp
  show ?thesis using n w d(1) e1 e2 by blast
qed

text \<open>
  A parseable interval field alone is not enough: with 15 fields, the interval field
  \<open>1000.5\<close> and a tick number that is not an integer, the \<open>ValueError\<close> ends the block
  at the third field and the dictionary has no \<open>interval_error_ms\<close>.
\<close>

theorem corr_interval_error_needs_all_fields:
  "length (split_comma ''t,1,x,1,1,1,1000.5,1,1,1,1,1,1,1,1'') \<ge> 15
   \<and> dec_float (split_comma ''t,1,x,1,1,1,1000.5,1,1,1,1,1,1,1,1'' ! 6) = Some (2001/2)
   \<and> parse_channel_data dec_float dec_int ''CORR'' ''t,1,x,1,1,1,1000.5,1,1,1,1,1,1,1,1''
       = Inr [(''time_str'', PStr ''t''), (''timestamp_ms'', PFloat 1)]
   \<and> map_of [(''time_str'', PStr ''t''), (''timestamp_ms'', PFloat 1)] ''interval_error_ms'' = None"
  by (simp add: parse_channel_data_def run_steps_def assign_str_def assign_float_def assign_int_def
      assign_interval_error_def except_value_index_def dec_float_eval dec_int_eval)




section \<open>Properties of the number formats\<close>

text \<open>
  Reading back with \<open>dec_float\<close> what \<open>fmt_fixed\<close> printed gives the value rounded to the
  printed number of decimals.
\<close>

lemma digits_of_small: "n < 10 \<Longrightarrow> digits_of n = [digit_char n]"
  by (subst digits_of.simps) simp

lemma digits_of_big: "10 \<le> n \<Longrightarrow> digits_of n = digits_of (n div 10) @ [digit_char (n mod 10)]"
  by (subst digits_of.simps) simp
















lemma fixed_digits_6:
  "fixed_digits 6 m =
     [digit_char (m div 10 div 10 div 10 div 10 div 10 mod 10),
      digit_char (m div 10 div 10 div 10 div 10 mod 10),
      digit_char (m div 10 div 10 div 10 mod 10),
      digit_char (m div 10 div 10 mod 10),
      digit_char (m div 10 mod 10),
      digit_char (m mod 10)]"
proof -
  have e: "(6::nat) = Suc (Suc (Suc (Suc (Suc (Suc 0)))))" by simp
  show ?thesis unfolding e by (simp only: fixed_digits.simps append_assoc append_Cons append_Nil)
qed

lemma fixed_digits_2:
  "fixed_digits 2 m = [digit_char (m div 10 mod 10), digit_char (m mod 10)]"
proof -
  have e: "(2::nat) = Suc (Suc 0)" by simp
  show ?thesis unfolding e by (simp only: fixed_digits.simps append_assoc append_Cons append_Nil)
qed

lemmas fmt_eval = fmt_fixed_def round_half_even_def Let_def sign_prefix_def digits_of_small
  digits_of_big fixed_digits_6 fixed_digits_2 digit_char_def

section \<open>Properties of the result store: a single write\<close>

lemma write_ini_cases:
  assumes "(case fs filepath of None \<Rightarrow> Inr [] | Some f \<Rightarrow> read_file lib f) = Inr cfg"
  shows "(we_fail env = None \<longrightarrow>
            write_ini lib env filepath params param_names mode score fs =
              (None, fs(filepath \<mapsto> File (write_ini_config cfg params param_names mode score (we_clock env)))))
       \<and> (we_fail env = Some OpenFails \<longrightarrow>
            write_ini lib env filepath params param_names mode score fs = (Some OSError, fs))
       \<and> (\<forall>k. we_fail env = Some (WriteFails k) \<longrightarrow>
            write_ini lib env filepath params param_names mode score fs =
              (Some OSError,
               fs(filepath \<mapsto> Torn (take k (ini_text
                     (write_ini_config cfg params param_names mode score (we_clock env)))))))"
  using assms by (simp add: write_ini_def Let_def)

text \<open>
  C4. What a record write leaves behind. A write that completes replaces the file by
  the whole new configuration. The file is opened for writing before anything is
  written, so a write that raises after \<open>k\<close> characters leaves exactly the first \<open>k\<close>
  characters of the new text, not the previous content; only when \<open>open\<close> itself raises
  is the file unchanged. The exception is returned in each failing case.
\<close>

theorem write_ini_outcomes:
  assumes "(case fs filepath of None \<Rightarrow> Inr [] | Some f \<Rightarrow> read_file lib f) = Inr cfg"
  shows "(we_fail env = None \<longrightarrow>
            write_ini lib env filepath params param_names mode score fs =
              (None, fs(filepath \<mapsto> File (write_ini_config cfg params param_names mode score (we_clock env)))))
       \<and> (we_fail env = Some OpenFails \<longrightarrow>
            write_ini lib env filepath params param_names mode score fs = (Some OSError, fs))
       \<and> (\<forall>k. we_fail env = Some (WriteFails k) \<longrightarrow>
            write_ini lib env filepath params param_names mode score fs =
              (Some OSError,
               fs(filepath \<mapsto> Torn (take k (ini_text
                     (write_ini_config cfg params param_names mode score (we_clock env)))))))"
  using assms by (rule write_ini_cases)

theorem write_ini_outcomes_witness:
  "(case (Map.empty(ini_path \<mapsto> File old_config)) ini_path of
      None \<Rightarrow> Inr [] | Some f \<Rightarrow> read_file lib0 f) = Inr old_config
   \<and> write_ini lib0 \<lparr>we_clock = clock1, we_fail = None\<rparr> ini_path
        [3] [''threshold''] ''tick'' 1 (Map.empty(ini_path \<mapsto> File old_config))
      = (None, Map.empty(ini_path \<mapsto>
           File (write_ini_config old_config [3] [''threshold''] ''tick'' 1 clock1)))
   \<and> write_ini lib0 \<lparr>we_clock = clock1, we_fail = Some (WriteFails 7)\<rparr> ini_path
        [3] [''threshold''] ''tick'' 1 (Map.empty(ini_path \<mapsto> File old_config))
      = (Some OSError, Map.empty(ini_path \<mapsto>
           Torn (take 7 (ini_text (write_ini_config old_config [3] [''threshold''] ''tick'' 1 clock1)))))"
proof -
  let ?fs = "Map.empty(ini_path \<mapsto> File old_config)"
  have h: "(case ?fs ini_path of None \<Rightarrow> Inr [] | Some f \<Rightarrow> read_file lib0 f) = Inr old_config"
    by (simp add: read_file_def)
  from write_ini_outcomes [where fs = "?fs" and filepath = ini_path and lib = lib0
      and cfg = old_config and env = "\<lparr>we_clock = clock1, we_fail = None\<rparr>" and params = "[3]"
      and param_names = "[''threshold'']" and mode = "''tick''" and score = 1, OF h]
  have a: "write_ini lib0 \<lparr>we_clock = clock1, we_fail = None\<rparr> ini_path
        [3] [''threshold''] ''tick'' 1 ?fs
      = (None, ?fs(ini_path \<mapsto> File (write_ini_config old_config [3] [''threshold''] ''tick'' 1 clock1)))"
    by simp
  from write_ini_outcomes [where fs = "?fs" and filepath = ini_path and lib = lib0
      and cfg = old_config and env = "\<lparr>we_clock = clock1, we_fail = Some (WriteFails 7)\<rparr>"
      and params = "[3]" and param_names = "[''threshold'']" and mode = "''tick''" and score = 1, OF h]
  have b: "write_ini lib0 \<lparr>we_clock = clock1, we_fail = Some (WriteFails 7)\<rparr> ini_path
        [3] [''threshold''] ''tick'' 1 ?fs
      = (Some OSError, ?fs(ini_path \<mapsto>
           Torn (take 7 (ini_text (write_ini_config old_config [3] [''threshold''] ''tick'' 1 clock1)))))"
    by simp
  from h a b show ?thesis by simp
qed

text \<open>
  The claim as stated fails: the record file holds the configuration of an earlier
  run, the write raises after 7 characters, and the file is left with those 7
  characters, which are not its previous content.
\<close>

lemma old_config_text: "ini_text old_config \<noteq> ''[tick_d''"
  by (simp add: ini_text_def old_config_def section_text_def)

lemma rewritten_old_config:
  "write_ini_config old_config [3] [''threshold''] ''tick'' 1 clock1 =
     [(''tick_detector'', [(''threshold_multiplier'', ''3.000000'')]),
      (''optimization_meta'',
         [(''last_mode'', ''tick''), (''last_score'', ''1.000000''),
          (''last_run'', ''2025-01-01 00:00:01''), (''tick_best_score'', ''1.000000'')])]"
  by (simp add: write_ini_config_def old_config_def dict_of_def write_section_def tick_entries_def
       ensure_section_def set_opt_def lower_def lower_char_def clock1_def fmt_eval)

theorem write_ini_torn_example:
  "write_ini lib0 \<lparr>we_clock = clock1, we_fail = Some (WriteFails 7)\<rparr> ini_path
      [3] [''threshold''] ''tick'' 1 (Map.empty(ini_path \<mapsto> File old_config))
     = (Some OSError, Map.empty(ini_path \<mapsto> Torn ''[tick_d''))
   \<and> file_bytes (Torn ''[tick_d'') \<noteq> file_bytes (File old_config)"
  using old_config_text
  by (simp add: write_ini_def read_file_def rewritten_old_config ini_text_def section_text_def
      file_bytes_def)

section \<open>Properties of the optimization driver: the end of a run\<close>

lemma get_bounds_total: "\<exists>bs. get_bounds mode = Inr bs"
  by (simp add: get_bounds_def PARAM_BOUNDS_def)

lemma optimize_cases:
  assumes b: "get_bounds mode = Inr bounds"
    and i: "initial = (case initial_params of None \<Rightarrow> map (\<lambda>b. (fst b + snd b) / 2) bounds | Some ps \<Rightarrow> ps)"
    and m: "minimize (run_objective lib world) initial meth
              (if meth = ''Nelder-Mead'' then None else Some bounds) max_iterations
              (A\<lparr>opt_mode := mode, optimization_running := True, eval_count := 0,
                 best_score := PInf, best_params := initial\<rparr>) = Some (outcome, A2)"
  shows "(\<forall>result. outcome = Inr result \<longrightarrow>
            optimize lib world minimize initial_params meth max_iterations mode A =
              Some (Inr \<lparr>or_success = res_success result, or_params = best_params A2,
                         or_param_names = get_param_names mode, or_mode = mode,
                         or_score = best_score A2, or_iterations = eval_count A2,
                         or_scipy_result = result\<rparr>,
                    A2\<lparr>optimization_running := False,
                       waterfall := snd (set_parameters_from_array (best_params A2) mode (waterfall A2))\<rparr>))
       \<and> (\<forall>e. outcome = Inl e \<longrightarrow>
            optimize lib world minimize initial_params meth max_iterations mode A =
              Some (Inl e, A2\<lparr>optimization_running := False\<rparr>))"
  using m unfolding i
  by (simp add: optimize_def b Let_def)

text \<open>
  C8. The two ways \<open>optimize\<close> ends once the minimizer has ended. When the minimizer
  returns, the best parameters are handed to \<open>set_parameters_from_array\<close> for the mode
  and the result record holds the success flag, the best parameters, the best score
  and the evaluation count. When the minimizer raises, only the running flag is
  cleared: the exception leaves \<open>optimize\<close>, nothing is sent and no record is returned.
\<close>

theorem optimize_outcomes:
  assumes "get_bounds mode = Inr bounds"
    and "initial = (case initial_params of None \<Rightarrow> map (\<lambda>b. (fst b + snd b) / 2) bounds | Some ps \<Rightarrow> ps)"
    and "minimize (run_objective lib world) initial meth
              (if meth = ''Nelder-Mead'' then None else Some bounds) max_iterations
              (A\<lparr>opt_mode := mode, optimization_running := True, eval_count := 0,
                 best_score := PInf, best_params := initial\<rparr>) = Some (outcome, A2)"
  shows "(\<forall>result. outcome = Inr result \<longrightarrow>
            optimize lib world minimize initial_params meth max_iterations mode A =
              Some (Inr \<lparr>or_success = res_success result, or_params = best_params A2,
                         or_param_names = get_param_names mode, or_mode = mode,
                         or_score = best_score A2, or_iterations = eval_count A2,
                         or_scipy_result = result\<rparr>,
                    A2\<lparr>optimization_running := False,
                       waterfall := snd (set_parameters_from_array (best_params A2) mode (waterfall A2))\<rparr>))
       \<and> (\<forall>e. outcome = Inl e \<longrightarrow>
            optimize lib world minimize initial_params meth max_iterations mode A =
              Some (Inl e, A2\<lparr>optimization_running := False\<rparr>))"
  using assms by (rule optimize_cases)

lemma tick_bounds: "get_bounds ''tick'' = Inr [(1, 5), (9/10, 999/1000), (1/1000, 1/10), (1, 10)]"
  by (simp add: get_bounds_def PARAM_BOUNDS_def)

theorem optimize_outcomes_witness:
  "optimize lib0 (\<lambda>n. quiet_env) idle_minimizer (Some [3, 19/20, 1/20, 5]) ''Nelder-Mead'' 50 ''tick'' agent0 =
     Some (Inr \<lparr>or_success = False, or_params = [3, 19/20, 1/20, 5],
                or_param_names = get_param_names ''tick'', or_mode = ''tick'',
                or_score = PInf, or_iterations = 0,
                or_scipy_result = \<lparr>res_success = False, res_x = [3, 19/20, 1/20, 5]\<rparr>\<rparr>,
           agent0\<lparr>opt_mode := ''tick'', optimization_running := True, eval_count := 0,
                  best_score := PInf, best_params := [3, 19/20, 1/20, 5],
                  optimization_running := False,
                  waterfall := snd (set_parameters_from_array [3, 19/20, 1/20, 5] ''tick'' (waterfall agent0))\<rparr>)
   \<and> optimize lib0 (\<lambda>n. quiet_env) raising_minimizer (Some [3, 19/20, 1/20, 5]) ''Nelder-Mead'' 50 ''tick'' agent0 =
     Some (Inl (MinimizerError ''interrupted''),
           agent0\<lparr>opt_mode := ''tick'', optimization_running := True, eval_count := 0,
                  best_score := PInf, best_params := [3, 19/20, 1/20, 5],
                  optimization_running := False\<rparr>)"
proof -
  let ?p = "[3, 19/20, 1/20, 5] :: real list"
  let ?A1 = "agent0\<lparr>opt_mode := ''tick'', optimization_running := True, eval_count := 0,
                  best_score := PInf, best_params := ?p\<rparr>"
  have i: "?p = (case Some ?p of None \<Rightarrow> map (\<lambda>b. (fst b + snd b) / 2) [(1, 5), (9/10, 999/1000), (1/1000, 1/10), (1, 10)] | Some ps \<Rightarrow> ps)"
    by simp
  have m1: "idle_minimizer (run_objective lib0 (\<lambda>n. quiet_env)) ?p ''Nelder-Mead''
              (if ''Nelder-Mead'' = ''Nelder-Mead'' then None else Some [(1, 5), (9/10, 999/1000), (1/1000, 1/10), (1, 10)]) 50 ?A1
            = Some (Inr \<lparr>res_success = False, res_x = ?p\<rparr>, ?A1)"
    by (simp add: idle_minimizer_def)
  have m2: "raising_minimizer (run_objective lib0 (\<lambda>n. quiet_env)) ?p ''Nelder-Mead''
              (if ''Nelder-Mead'' = ''Nelder-Mead'' then None else Some [(1, 5), (9/10, 999/1000), (1/1000, 1/10), (1, 10)]) 50 ?A1
            = Some (Inl (MinimizerError ''interrupted''), ?A1)"
    by (simp add: raising_minimizer_def)
  note t1 = optimize_outcomes [where mode = "''tick''" and initial = "?p" and initial_params = "Some ?p"
      and minimize = idle_minimizer and lib = lib0 and world = "\<lambda>n. quiet_env"
      and meth = "''Nelder-Mead''" and max_iterations = 50 and A = agent0
      and outcome = "Inr \<lparr>res_success = False, res_x = ?p\<rparr>" and ?A2.0 = "?A1", OF tick_bounds i m1]
  note t2 = optimize_outcomes [where mode = "''tick''" and initial = "?p" and initial_params = "Some ?p"
      and minimize = raising_minimizer and lib = lib0 and world = "\<lambda>n. quiet_env"
      and meth = "''Nelder-Mead''" and max_iterations = 50 and A = agent0
      and outcome = "Inl (MinimizerError ''interrupted'')" and ?A2.0 = "?A1", OF tick_bounds i m2]
  from t1 t2 show ?thesis by simp
qed

text \<open>
  The claim as stated fails on a minimizer that raises: \<open>optimize\<close> ends with the
  exception instead of a result record, and the parameter client, connected and with
  a working link, has sent nothing.
\<close>

theorem optimize_raising_example:
  "optimize lib0 (\<lambda>n. quiet_env) raising_minimizer (Some [3, 19/20, 1/20, 5]) ''Nelder-Mead'' 50 ''tick'' agent0 =
     Some (Inl (MinimizerError ''interrupted''),
           agent0\<lparr>opt_mode := ''tick'', optimization_running := False, eval_count := 0,
                  best_score := PInf, best_params := [3, 19/20, 1/20, 5]\<rparr>)
   \<and> sent (waterfall (agent0\<lparr>opt_mode := ''tick'', optimization_running := False, eval_count := 0,
                  best_score := PInf, best_params := [3, 19/20, 1/20, 5]\<rparr>)) = []"
proof -
  have a: "optimize lib0 (\<lambda>n. quiet_env) raising_minimizer (Some [3, 19/20, 1/20, 5]) ''Nelder-Mead'' 50 ''tick'' agent0 =
     Some (Inl (MinimizerError ''interrupted''),
           agent0\<lparr>opt_mode := ''tick'', optimization_running := False, eval_count := 0,
                  best_score := PInf, best_params := [3, 19/20, 1/20, 5]\<rparr>)"
    by (simp add: optimize_def tick_bounds raising_minimizer_def)
  have b: "sent (waterfall (agent0\<lparr>opt_mode := ''tick'', optimization_running := False, eval_count := 0,
                  best_score := PInf, best_params := [3, 19/20, 1/20, 5]\<rparr>)) = []"
    by (simp add: agent0_def start_def ControllerAgent_init_def connect_def WaterfallController_init_def)
  from a b show ?thesis by blast
qed

section \<open>Properties of the result store: sequences of calls\<close>


lemma sect_set_opt: "(map_of (set_opt s k v cfg) s' = None) = (map_of cfg s' = None)"
  by (auto simp: set_opt_def map_of_map_entry split: option.splits)


lemma sect_ensure: "(map_of (ensure_section s cfg) s' = None) = (s' \<noteq> s \<and> map_of cfg s' = None)"
  by (auto simp: ensure_section_def)


lemma write_entries_sect:
  "(map_of (foldl (\<lambda>c e. (case pd (fst e) of None \<Rightarrow> c
              | Some v \<Rightarrow> set_opt sect (fst (snd e)) (snd (snd e) v) c)) cfg entries) s' = None)
     = (map_of cfg s' = None)"
  by (induction entries arbitrary: cfg) (auto simp: sect_set_opt split: option.splits)


lemma sect_write_section:
  "(map_of (write_section pd sect entries cfg) s' = None) = (s' \<noteq> sect \<and> map_of cfg s' = None)"
  by (simp add: write_section_def write_entries_sect sect_ensure)

lemma lower_append: "lower (a @ b) = lower a @ lower b"
  by (simp add: lower_def)










lemma paths_distinct: "ini_path \<noteq> last_run_path"
  by (simp add: ini_path_def last_run_path_def)








lemma fmt_values:
  "fmt_fixed 6 3 = ''3.000000''" "fmt_fixed 6 (19/20) = ''0.950000''"
  "fmt_fixed 6 (1/20) = ''0.050000''" "fmt_fixed 2 5 = ''5.00''"
  "fmt_fixed 6 rounded_up_score = ''0.000001''" "fmt_fixed 6 2 = ''2.000000''"
  by (simp_all add: fmt_eval rounded_up_score_def)

lemma tick_dict:
  "dict_of (zip (get_param_names ''tick'') tick_vector) =
     [''threshold'' \<mapsto> 3, ''adapt_down'' \<mapsto> 19/20, ''adapt_up'' \<mapsto> 1/20, ''min_duration'' \<mapsto> 5]"
  by (simp add: dict_of_def get_param_names_def tick_vector_def)

lemma first_write:
  "write_ini_config [] tick_vector (get_param_names ''tick'') ''tick'' rounded_up_score clock = first_config clock"
  unfolding write_ini_config_def tick_dict
  by (simp add: write_section_def tick_entries_def ensure_section_def set_opt_def lower_def
      lower_char_def fmt_values first_config_def)

lemma second_write:
  "write_ini_config (first_config clock) tick_vector (get_param_names ''tick'') ''tick'' rounded_up_score clock'
     = first_config clock'"
  unfolding write_ini_config_def tick_dict
  by (simp add: write_section_def tick_entries_def ensure_section_def set_opt_def lower_def
      lower_char_def fmt_values first_config_def)

lemma stored_value: "dec_float ''0.000001'' = Some (1/10^6)"
  by (simp add: dec_float_def dec_ufloat_def dec_nat_def is_digit_def digits_val_def digit_val_def)

lemma first_save:
  "save_to_ini lib0 \<lparr>we_clock = clock0, we_fail = None\<rparr> \<lparr>we_clock = clock0, we_fail = None\<rparr>
      tick_vector (get_param_names ''tick'') ''tick'' rounded_up_score Map.empty
   = (None, [last_run_path \<mapsto> File (first_config clock0), ini_path \<mapsto> File (first_config clock0)])"
  by (simp add: save_to_ini_def write_ini_def first_write get_existing_score_def paths_distinct)

lemma second_save:
  "save_to_ini lib0 \<lparr>we_clock = clock1, we_fail = None\<rparr> \<lparr>we_clock = clock1, we_fail = None\<rparr>
      tick_vector (get_param_names ''tick'') ''tick'' rounded_up_score
      [last_run_path \<mapsto> File (first_config clock0), ini_path \<mapsto> File (first_config clock0)]
   = (None, [last_run_path \<mapsto> File (first_config clock1), ini_path \<mapsto> File (first_config clock1)])"
proof -
  have p: "ini_path \<noteq> last_run_path" "last_run_path \<noteq> ini_path" using paths_distinct by auto
  have g: "get_opt (first_config clock0) ''optimization_meta'' ''tick_best_score'' = Some ''0.000001''"
    by (simp add: get_opt_def first_config_def lower_def lower_char_def)
  have m: "map_of (first_config clock0) ''optimization_meta'' \<noteq> None"
    by (simp add: first_config_def)
  have ex: "get_existing_score lib0
      [last_run_path \<mapsto> File (first_config clock1), ini_path \<mapsto> File (first_config clock0)] ini_path ''tick''
        = Inr (Some (Fin (1/10^6)))"
    using p g by (simp add: get_existing_score_def read_file_def lib0_def stored_value)
  have w1: "write_ini lib0 \<lparr>we_clock = clock1, we_fail = None\<rparr> last_run_path
      tick_vector (get_param_names ''tick'') ''tick'' rounded_up_score
      [last_run_path \<mapsto> File (first_config clock0), ini_path \<mapsto> File (first_config clock0)]
      = (None, [last_run_path \<mapsto> File (first_config clock1), ini_path \<mapsto> File (first_config clock0)])"
    using p by (simp add: write_ini_def read_file_def second_write fun_upd_twist)
  have w2: "write_ini lib0 \<lparr>we_clock = clock1, we_fail = None\<rparr> ini_path
      tick_vector (get_param_names ''tick'') ''tick'' rounded_up_score
      [last_run_path \<mapsto> File (first_config clock1), ini_path \<mapsto> File (first_config clock0)]
      = (None, [last_run_path \<mapsto> File (first_config clock1), ini_path \<mapsto> File (first_config clock1)])"
    using p by (simp add: write_ini_def read_file_def second_write)
  have lt: "less_xreal rounded_up_score (Fin (1/10^6))"
    by (simp add: less_xreal_def rounded_up_score_def)
  show ?thesis
    unfolding save_to_ini_def w1 using lt by (simp add: ex w2)
qed

lemma texts_differ: "file_bytes (File (first_config clock0)) \<noteq> file_bytes (File (first_config clock1))"
  by (simp add: file_bytes_def ini_text_def section_text_def option_line_def first_config_def clock0_def clock1_def)


text \<open>
  C6. Two calls with the same arguments, in different clock seconds, on a directory
  with no record yet. The score \<open>6e-7\<close> is recorded as \<open>0.000001\<close>; the second call reads
  that back, finds its score below it and writes the all-time-best record again, now
  with the later \<open>last_run\<close>: the record after the second call is not the record after
  the first.
\<close>

theorem save_to_ini_twice_differs:
  "save_to_ini lib0 \<lparr>we_clock = clock0, we_fail = None\<rparr> \<lparr>we_clock = clock0, we_fail = None\<rparr>
      tick_vector (get_param_names ''tick'') ''tick'' rounded_up_score Map.empty
     = (None, [last_run_path \<mapsto> File (first_config clock0), ini_path \<mapsto> File (first_config clock0)])
   \<and> save_to_ini lib0 \<lparr>we_clock = clock1, we_fail = None\<rparr> \<lparr>we_clock = clock1, we_fail = None\<rparr>
      tick_vector (get_param_names ''tick'') ''tick'' rounded_up_score
      [last_run_path \<mapsto> File (first_config clock0), ini_path \<mapsto> File (first_config clock0)]
     = (None, [last_run_path \<mapsto> File (first_config clock1), ini_path \<mapsto> File (first_config clock1)])
   \<and> file_bytes (File (first_config clock0)) \<noteq> file_bytes (File (first_config clock1))"
  using first_save second_save texts_differ by simp

section \<open>Properties of the optimization driver: evaluations\<close>

lemma split_comma1_hd:
  "split_comma1 s ! 0 = takeWhile (\<lambda>c. c \<noteq> CHR '','') s"
  by (simp add: split_comma1_def Let_def split: list.splits)

lemma parse_message_channel:
  assumes "parse_message dec pf pint now dat = Inr (Some msg)"
  shows "datagram_channel dec dat = Some (tm_channel msg)"
  using assms
  by (auto simp: parse_message_def parse_message_body_def datagram_channel_def Let_def split_comma1_hd
      split: option.splits sum.splits if_splits)

lemma store_message_other:
  "tm_channel msg \<noteq> ''MARK'' \<Longrightarrow> marker_events (store_message msg L) = marker_events L"
  "tm_channel msg \<noteq> ''SYNC'' \<Longrightarrow> sync_states (store_message msg L) = sync_states L"
  "tm_channel msg \<noteq> ''CORR'' \<Longrightarrow> map_of (latest (store_message msg L)) ''CORR'' = map_of (latest L) ''CORR''"
  by (simp_all add: store_message_def Let_def update_conv')

lemma listen_pass_quiet:
  assumes "\<not> carries lib ch ev"
    and "listen_pass (lib_decode lib) (lib_float lib) (lib_int lib) ev L = Inr L'"
  shows "ch = ''MARK'' \<longrightarrow> marker_events L' = marker_events L"
    and "ch = ''SYNC'' \<longrightarrow> sync_states L' = sync_states L"
    and "ch = ''CORR'' \<longrightarrow> map_of (latest L') ''CORR'' = map_of (latest L) ''CORR''"
  using assms
  by (auto simp: listen_pass_def carries_def store_message_other
      dest!: parse_message_channel split: recv.splits sum.splits option.splits if_splits)

lemma listen_loop_quiet:
  "quiet_on lib ch evs \<Longrightarrow>
   (ch = ''MARK'' \<longrightarrow> marker_events (snd (listen_loop (lib_decode lib) (lib_float lib) (lib_int lib) evs L)) = marker_events L)
   \<and> (ch = ''SYNC'' \<longrightarrow> sync_states (snd (listen_loop (lib_decode lib) (lib_float lib) (lib_int lib) evs L)) = sync_states L)
   \<and> (ch = ''CORR'' \<longrightarrow> map_of (latest (snd (listen_loop (lib_decode lib) (lib_float lib) (lib_int lib) evs L))) ''CORR'' = map_of (latest L) ''CORR'')"
proof (induction evs arbitrary: L)
  case Nil
  show ?case by simp
next
  case (Cons ev evs)
  then have q: "\<not> carries lib ch ev" and qs: "quiet_on lib ch evs"
    by (simp_all add: quiet_on_def)
  show ?case
  proof (cases "running L")
    case False
    then show ?thesis by simp
  next
    case True
    show ?thesis
    proof (cases "listen_pass (lib_decode lib) (lib_float lib) (lib_int lib) ev L")
      case (Inl e)
      then show ?thesis using True by simp
    next
      case (Inr L')
      from listen_pass_quiet [OF q Inr] Cons.IH [OF qs, of L'] show ?thesis
        using True Inr by simp
    qed
  qed
qed

lemma absorb_quiet:
  assumes "quiet_on lib ch evs"
  shows "ch = ''MARK'' \<Longrightarrow> marker_events (absorb lib evs L) = marker_events L"
    and "ch = ''SYNC'' \<Longrightarrow> sync_states (absorb lib evs L) = sync_states L"
    and "ch = ''CORR'' \<Longrightarrow> map_of (latest (absorb lib evs L)) ''CORR'' = map_of (latest L) ''CORR''"
  using listen_loop_quiet [OF assms, of L] by (simp_all add: absorb_def)

lemma marker_wait_quiet:
  "polls_quiet_on lib ''MARK'' polls \<Longrightarrow> marker_events L = [] \<Longrightarrow>
   marker_wait lib target et polls L = Some L' \<Longrightarrow> marker_events L' = []"
proof (induction polls arbitrary: L)
  case Nil
  then show ?case by simp
next
  case (Cons p polls)
  from Cons.prems(1) have q: "quiet_on lib ''MARK'' (snd p)" and qs: "polls_quiet_on lib ''MARK'' polls"
    by (simp_all add: polls_quiet_on_def)
  have e: "marker_events (absorb lib (snd p) L) = []"
    using absorb_quiet(1) [OF q] Cons.prems(2) by simp
  show ?case
  proof (cases "target \<le> get_marker_count (absorb lib (snd p) L) \<or> et \<le> fst p")
    case True
    then have "marker_wait lib target et (p # polls) L = Some (absorb lib (snd p) L)"
      by (auto simp: Let_def)
    then show ?thesis using Cons.prems(3) e by simp
  next
    case False
    then have "marker_wait lib target et (p # polls) L = marker_wait lib target et polls (absorb lib (snd p) L)"
      by (auto simp: Let_def)
    then show ?thesis using Cons.IH [OF qs e] Cons.prems(3) by simp
  qed
qed

lemma marker_wait_ends:
  "polls_reach et polls \<Longrightarrow> \<exists>L'. marker_wait lib target et polls L = Some L'"
proof (induction polls arbitrary: L)
  case Nil
  then show ?case by (simp add: polls_reach_def)
next
  case (Cons p polls)
  show ?case
  proof (cases "target \<le> get_marker_count (absorb lib (snd p) L) \<or> et \<le> fst p")
    case True
    then show ?thesis by (auto simp: Let_def)
  next
    case False
    then have r: "polls_reach et polls" using Cons.prems by (simp add: polls_reach_def)
    from False have "marker_wait lib target et (p # polls) L = marker_wait lib target et polls (absorb lib (snd p) L)"
      by (auto simp: Let_def)
    then show ?thesis using Cons.IH [OF r] by simp
  qed
qed

lemma empty_sync_metrics:
  "sync_states L = [] \<Longrightarrow>
   get_sync_metrics L = Inr \<lparr>sm_locked_pct = 0, sm_avg_confidence = 0, sm_state_changes = 0,
                              sm_time_to_lock = PInf\<rparr>"
  by (simp add: get_sync_metrics_def)

lemma sync_wait_quiet:
  "polls_quiet_on lib ''SYNC'' polls \<Longrightarrow> sync_states L = [] \<Longrightarrow> polls_reach et polls \<Longrightarrow>
   \<exists>L'. sync_wait lib et polls L = Some (Inr L') \<and> sync_states L' = []"
proof (induction polls arbitrary: L)
  case Nil
  then show ?case by (simp add: polls_reach_def)
next
  case (Cons p polls)
  from Cons.prems(1) have q: "quiet_on lib ''SYNC'' (snd p)" and qs: "polls_quiet_on lib ''SYNC'' polls"
    by (simp_all add: polls_quiet_on_def)
  have e: "sync_states (absorb lib (snd p) L) = []"
    using absorb_quiet(2) [OF q] Cons.prems(2) by simp
  show ?case
  proof (cases "et \<le> fst p")
    case True
    then show ?thesis using e by (simp add: Let_def empty_sync_metrics)
  next
    case False
    then have r: "polls_reach et polls" using Cons.prems(3) by (simp add: polls_reach_def)
    from False have "sync_wait lib et (p # polls) L = sync_wait lib et polls (absorb lib (snd p) L)"
      using e by (simp add: Let_def empty_sync_metrics)
    then show ?thesis using Cons.IH [OF qs e r] by simp
  qed
qed

lemma empty_marker_metrics:
  "marker_events L = [] \<Longrightarrow> get_marker_metrics L =
     Inr \<lparr>mm_count = 0, mm_avg_duration_ms = 0, mm_duration_variance = 0,
          mm_avg_interval_sec = 0, mm_interval_error_sec = 60\<rparr>"
  by (simp add: get_marker_metrics_def)

lemma no_corr_metrics:
  "map_of (latest L) ''CORR'' = None \<Longrightarrow> get_correlation_metrics L = []"
  by (simp add: get_correlation_metrics_def get_latest_def)

lemma tick_no_telemetry:
  assumes "opt_mode A \<noteq> ''marker''" "opt_mode A \<noteq> ''sync''"
    and "get_latest (telemetry A) ''CORR'' = None"
    and "quiet_on lib ''CORR'' (ev_settle env)"
  shows "\<exists>A'. objective_function lib env params A = Some (Inr 1000, A')
           \<and> best_score A' = best_score A \<and> best_params A' = best_params A \<and> files A' = files A"
proof -
  have "map_of (latest (absorb lib (ev_settle env) (telemetry A))) ''CORR'' = None"
    using absorb_quiet(3) [OF assms(4)] assms(3) by (simp add: get_latest_def)
  then have "get_correlation_metrics (absorb lib (ev_settle env) (telemetry A)) = []"
    by (rule no_corr_metrics)
  then show ?thesis using assms(1,2) by (simp add: objective_function_def Let_def)
qed

lemma marker_no_telemetry:
  assumes "opt_mode A = ''marker''"
    and "polls_quiet_on lib ''MARK'' (ev_polls env)"
    and "polls_reach (marker_eval_time A) (ev_polls env)"
  shows "\<exists>A'. objective_function lib env params A = Some (Inr 1000, A')
           \<and> best_score A' = best_score A \<and> best_params A' = best_params A \<and> files A' = files A"
proof -
  let ?L = "clear_marker_events (telemetry A)"
  obtain L' where w: "marker_wait lib (marker_count_target A) (marker_eval_time A) (ev_polls env) ?L = Some L'"
    using marker_wait_ends [OF assms(3)] by blast
  have "marker_events ?L = []" by (simp add: clear_marker_events_def)
  then have "marker_events L' = []" using marker_wait_quiet [OF assms(2) _ w] by simp
  then have m: "get_marker_metrics L' = Inr \<lparr>mm_count = 0, mm_avg_duration_ms = 0, mm_duration_variance = 0,
          mm_avg_interval_sec = 0, mm_interval_error_sec = 60\<rparr>"
    by (rule empty_marker_metrics)
  show ?thesis using assms(1) w m
    by (simp add: objective_function_def marker_objective_function_def Let_def)
qed

lemma sync_no_telemetry:
  assumes "opt_mode A = ''sync''"
    and "polls_quiet_on lib ''SYNC'' (ev_polls env)"
    and "polls_reach (sync_eval_time A) (ev_polls env)"
  shows "\<exists>A3. objective_function lib env params A = Some (track_best lib env ''sync'' 110 params A3)
           \<and> best_score A3 = best_score A \<and> best_params A3 = best_params A \<and> files A3 = files A"
proof -
  let ?L = "clear_sync_states (telemetry A)"
  have "sync_states ?L = []" by (simp add: clear_sync_states_def)
  then obtain L' where w: "sync_wait lib (sync_eval_time A) (ev_polls env) ?L = Some (Inr L')"
    and e: "sync_states L' = []"
    using sync_wait_quiet [OF assms(2) _ assms(3)] by blast
  let ?A3 = "A\<lparr>eval_count := eval_count A + 1,
                waterfall := snd (set_parameters_from_array params ''sync'' (waterfall A)),
                telemetry := L'\<rparr>"
  have "objective_function lib env params A = Some (track_best lib env ''sync'' 110 params ?A3)"
    using assms(1) w empty_sync_metrics [OF e]
    by (simp add: objective_function_def sync_objective_function_def Let_def min_xreal_def)
  then show ?thesis by (intro exI [of _ ?A3]) simp
qed

lemma track_best_result:
  assumes "track_best lib env mode s params A = (r, A')"
  shows "telemetry A' = telemetry A"
    and "\<forall>s'. r = Inr s' \<longrightarrow> s' = s"
    and "less_xreal s (best_score A) \<longrightarrow>
           best_score A' = Fin s \<and> best_params A' = params
           \<and> files A' = snd (save_to_ini lib (ev_write1 env) (ev_write2 env) params
                               (get_param_names mode) mode s (files A))"
    and "\<not> less_xreal s (best_score A) \<longrightarrow> r = Inr s \<and> same_best A A'"
  using assms
  by (auto simp: track_best_def Let_def same_best_def split: if_splits option.splits)

lemma objective_shape:
  assumes "objective_function lib env params A = Some (r, A')"
  shows "(\<not> score_computed A A' \<and> r = Inr 1000 \<and> same_best A A')
       \<or> (score_computed A A' \<and> (\<exists>e. r = Inl e))
       \<or> (score_computed A A' \<and> (\<exists>s A4. track_best lib env (opt_mode A) s params A4 = (r, A') \<and> same_best A A4))"
proof (cases "opt_mode A = ''marker''")
  case True
  let ?A3 = "A\<lparr>eval_count := eval_count A + 1,
                waterfall := snd (set_parameters_from_array params ''marker'' (waterfall A)),
                telemetry := clear_marker_events (telemetry A)\<rparr>"
  from assms True obtain L where
    w: "marker_wait lib (marker_count_target A) (marker_eval_time A) (ev_polls env)
          (clear_marker_events (telemetry A)) = Some L"
    by (auto simp: objective_function_def marker_objective_function_def Let_def split: option.splits)
  show ?thesis
  proof (cases "get_marker_metrics L")
    case (Inl e)
    then have ne: "marker_events L \<noteq> []"
      by (auto simp: get_marker_metrics_def)
    from assms True w Inl have "r = Inl e" "telemetry A' = L"
      by (auto simp: objective_function_def marker_objective_function_def Let_def)
    then show ?thesis using True ne by (simp add: score_computed_def)
  next
    case (Inr metrics)
    show ?thesis
    proof (cases "marker_events L = []")
      case e: True
      then have "mm_count metrics = 0" using Inr by (auto simp: get_marker_metrics_def)
      with assms True w Inr have "r = Inr 1000" "A' = ?A3\<lparr>telemetry := L\<rparr>"
        by (auto simp: objective_function_def marker_objective_function_def Let_def)
      then show ?thesis using True e by (simp add: score_computed_def same_best_def)
    next
      case ne: False
      then have c: "mm_count metrics \<noteq> 0" using Inr
        by (auto simp: get_marker_metrics_def Let_def split: sum.splits)
      from assms True w Inr c obtain s where
        t: "track_best lib env ''marker'' s params (?A3\<lparr>telemetry := L\<rparr>) = (r, A')"
        by (auto simp: objective_function_def marker_objective_function_def Let_def)
      have "telemetry A' = L" using track_best_result(1) [OF t] by simp
      then have "score_computed A A'" using True ne by (simp add: score_computed_def)
      moreover have "same_best A (?A3\<lparr>telemetry := L\<rparr>)" by (simp add: same_best_def)
      ultimately show ?thesis using t True by auto
    qed
  qed
next
  case nm: False
  show ?thesis
  proof (cases "opt_mode A = ''sync''")
    case True
    then have sc: "score_computed A A'" by (simp add: score_computed_def)
    let ?A3 = "A\<lparr>eval_count := eval_count A + 1,
                  waterfall := snd (set_parameters_from_array params ''sync'' (waterfall A)),
                  telemetry := clear_sync_states (telemetry A)\<rparr>"
    from assms True obtain w where
      w: "sync_wait lib (sync_eval_time A) (ev_polls env) (clear_sync_states (telemetry A)) = Some w"
      by (auto simp: objective_function_def sync_objective_function_def Let_def split: option.splits)
    show ?thesis
    proof (cases w)
      case (Inl e)
      with assms True w have "r = Inl e"
        by (auto simp: objective_function_def sync_objective_function_def Let_def)
      then show ?thesis using sc by simp
    next
      case (Inr L)
      show ?thesis
      proof (cases "get_sync_metrics L")
        case (Inl e)
        with assms True w Inr have "r = Inl e"
          by (auto simp: objective_function_def sync_objective_function_def Let_def)
        then show ?thesis using sc by simp
      next
        case m: (Inr metrics)
        from assms True w Inr m obtain s where
          t: "track_best lib env ''sync'' s params (?A3\<lparr>telemetry := L\<rparr>) = (r, A')"
          by (auto simp: objective_function_def sync_objective_function_def Let_def)
        moreover have "same_best A (?A3\<lparr>telemetry := L\<rparr>)" by (simp add: same_best_def)
        ultimately show ?thesis using sc True by auto
      qed
    qed
  next
    case ns: False
    let ?A3 = "A\<lparr>eval_count := eval_count A + 1,
                  waterfall := snd (set_parameters_from_array params (opt_mode A) (waterfall A)),
                  telemetry := absorb lib (ev_settle env) (telemetry A)\<rparr>"
    let ?metrics = "get_correlation_metrics (telemetry ?A3)"
    show ?thesis
    proof (cases "?metrics = []")
      case True
      with assms nm ns have "r = Inr 1000" "A' = ?A3"
        by (auto simp: objective_function_def Let_def)
      then show ?thesis using True nm ns by (simp add: score_computed_def same_best_def)
    next
      case ne: False
      have sb: "same_best A ?A3" by (simp add: same_best_def)
      from assms nm ns ne have
        "(\<exists>e. r = Inl e \<and> A' = ?A3) \<or> (\<exists>s. track_best lib env (opt_mode A) s params ?A3 = (r, A'))"
        by (auto simp: objective_function_def Let_def split: sum.splits)
      then show ?thesis
      proof
        assume "\<exists>e. r = Inl e \<and> A' = ?A3"
        then show ?thesis using ne nm ns by (auto simp: score_computed_def)
      next
        assume "\<exists>s. track_best lib env (opt_mode A) s params ?A3 = (r, A')"
        then obtain s where t: "track_best lib env (opt_mode A) s params ?A3 = (r, A')" by blast
        have "telemetry A' = telemetry ?A3" using track_best_result(1) [OF t] .
        then have "score_computed A A'" using ne nm ns by (simp add: score_computed_def)
        then show ?thesis using t sb by blast
      qed
    qed
  qed
qed

lemma evaluation_cases:
  assumes "objective_function lib env params A = Some (r, A')"
  shows "(\<forall>s. r = Inr s \<and> score_computed A A' \<and> less_xreal s (best_score A) \<longrightarrow>
            best_score A' = Fin s \<and> best_params A' = params
            \<and> files A' = snd (save_to_ini lib (ev_write1 env) (ev_write2 env) params
                                (get_param_names (opt_mode A)) (opt_mode A) s (files A)))
       \<and> (\<forall>s. r = Inr s \<and> \<not> less_xreal s (best_score A) \<longrightarrow> same_best A A')
       \<and> (\<not> score_computed A A' \<longrightarrow> r = Inr 1000 \<and> same_best A A')"
proof -
  from objective_shape [OF assms] consider
    (pen) "\<not> score_computed A A'" "r = Inr 1000" "same_best A A'"
    | (err) "score_computed A A'" "\<exists>e. r = Inl e"
    | (trk) s A4 where "score_computed A A'" "track_best lib env (opt_mode A) s params A4 = (r, A')"
        "same_best A A4"
    by blast
  then show ?thesis
  proof cases
    case pen
    then show ?thesis by simp
  next
    case err
    then show ?thesis by auto
  next
    case trk
    note tb = track_best_result [OF trk(2)]
    have b: "best_score A4 = best_score A" "files A4 = files A" "best_params A4 = best_params A"
      using trk(3) by (simp_all add: same_best_def)
    have c1: "\<forall>s'. r = Inr s' \<and> score_computed A A' \<and> less_xreal s' (best_score A) \<longrightarrow>
            best_score A' = Fin s' \<and> best_params A' = params
            \<and> files A' = snd (save_to_ini lib (ev_write1 env) (ev_write2 env) params
                                (get_param_names (opt_mode A)) (opt_mode A) s' (files A))"
      using tb(2) tb(3) b by auto
    have c2: "\<forall>s'. r = Inr s' \<and> \<not> less_xreal s' (best_score A) \<longrightarrow> same_best A A'"
      using tb(2) tb(4) b by (auto simp: same_best_def)
    show ?thesis using c1 c2 trk(1) by blast
  qed
qed

lemma dec_values:
  "dec_float ''1'' = Some 1" "dec_float ''5000'' = Some 5000" "dec_int ''1'' = Some 1"
  by (simp_all add: dec_float_def dec_ufloat_def dec_int_def dec_nat_def is_digit_def digits_val_def digit_val_def)

lemma corr_sample_fields:
  "parse_channel_data dec_float dec_int ''CORR'' ''t,1,1,1,1,1,5000,1,1,1,1,1,1,1,1'' = Inr corr_sample_parsed"
  by (simp add: parse_channel_data_def run_steps_def assign_str_def assign_float_def assign_int_def
      assign_interval_error_def except_value_index_def dec_values corr_sample_parsed_def)

lemma corr_sample_message:
  "parse_message decode_ascii dec_float dec_int 100 corr_sample =
     Inr (Some \<lparr>tm_channel = ''CORR'', tm_timestamp = 100,
                 tm_data = ''t,1,1,1,1,1,5000,1,1,1,1,1,1,1,1'', tm_parsed = corr_sample_parsed\<rparr>)"
proof -
  have d: "decode_ascii corr_sample = Some corr_sample"
    by (simp add: decode_ascii_def corr_sample_def)
  have s: "strip corr_sample = corr_sample"
    by (simp add: strip_def corr_sample_def is_space_def)
  have p: "split_comma1 corr_sample = [''CORR'', ''t,1,1,1,1,1,5000,1,1,1,1,1,1,1,1'']"
    by (simp add: split_comma1_def corr_sample_def)
  have n: "corr_sample \<noteq> []" by (simp add: corr_sample_def)
  show ?thesis
    by (simp add: parse_message_def parse_message_body_def d s p n corr_sample_fields)
qed

lemma sample_metrics:
  "get_correlation_metrics (absorb lib0 (ev_settle sample_env) (telemetry agent0)) = corr_sample_parsed"
proof -
  have r: "running (telemetry agent0)"
    by (simp add: agent0_def start_def ControllerAgent_init_def)
  have l: "latest (telemetry agent0) = []"
    by (simp add: agent0_def start_def ControllerAgent_init_def TelemetryListener_init_def)
  have ne: "corr_sample_parsed \<noteq> []" by (simp add: corr_sample_parsed_def)
  have "latest (absorb lib0 [Datagram corr_sample 100] (telemetry agent0)) =
      [(''CORR'', \<lparr>tm_channel = ''CORR'', tm_timestamp = 100,
                 tm_data = ''t,1,1,1,1,1,5000,1,1,1,1,1,1,1,1'', tm_parsed = corr_sample_parsed\<rparr>)]"
    using r l by (simp add: absorb_def lib0_def listen_pass_def corr_sample_message store_message_def Let_def)
  then show ?thesis using ne
    by (simp add: sample_env_def get_correlation_metrics_def get_latest_def)
qed

lemma agent0_mode: "opt_mode agent0 = ''tick''" "best_score agent0 = PInf" "files agent0 = Map.empty"
  by (simp_all add: agent0_def start_def ControllerAgent_init_def)

lemma sample_evaluation:
  "objective_function lib0 sample_env tick_vector agent0 =
     Some (track_best lib0 sample_env ''tick'' 4000 tick_vector
       (agent0\<lparr>eval_count := eval_count agent0 + 1,
          waterfall := snd (set_parameters_from_array tick_vector ''tick'' (waterfall agent0)),
          telemetry := absorb lib0 (ev_settle sample_env) (telemetry agent0)\<rparr>))"
proof -
  have ne: "corr_sample_parsed \<noteq> []" by (simp add: corr_sample_parsed_def)
  have n: "num (dict_get corr_sample_parsed ''interval_error_ms'' (PFloat 1000)) = Inr 4000"
    "num (dict_get corr_sample_parsed ''cumulative_drift_ms'' (PFloat 0)) = Inr 1"
    "num (dict_get corr_sample_parsed ''chain_length'' (PInt 0)) = Inr 1"
    "num (dict_get corr_sample_parsed ''corr_ratio'' (PFloat 0)) = Inr 1"
    by (simp_all add: corr_sample_parsed_def dict_get_def num_def)
  show ?thesis
    unfolding objective_function_def Let_def agent0_mode
    by (simp add: sample_metrics ne n)
qed

lemma write_ini_ok:
  "we_fail env = None \<Longrightarrow> intact fs filepath \<Longrightarrow>
   fst (write_ini lib env filepath params names mode score fs) = None"
  by (auto simp: write_ini_def read_file_def Let_def intact_def split: option.splits disk_file.splits)

lemma write_ini_intact:
  "we_fail env = None \<Longrightarrow> intact fs p \<Longrightarrow> intact fs filepath \<Longrightarrow>
   intact (snd (write_ini lib env filepath params names mode score fs)) p"
  by (auto simp: write_ini_def read_file_def Let_def intact_def split: option.splits disk_file.splits)

lemma existing_score_ok:
  "intact fs filepath \<Longrightarrow> \<exists>ex. get_existing_score lib fs filepath mode = Inr ex"
  by (auto simp: get_existing_score_def read_file_def Let_def intact_def
      split: option.splits disk_file.splits)

lemma save_to_ini_ok:
  assumes e1: "we_fail env1 = None" and e2: "we_fail env2 = None"
    and l: "intact fs last_run_path" and i: "intact fs ini_path"
  shows "fst (save_to_ini lib env1 env2 params names mode score fs) = None"
proof -
  obtain r1 fs1 where w: "write_ini lib env1 last_run_path params names mode score fs = (r1, fs1)"
    by (cases "write_ini lib env1 last_run_path params names mode score fs")
  have "fst (write_ini lib env1 last_run_path params names mode score fs) = None"
    using e1 l by (rule write_ini_ok)
  then have r1: "r1 = None" using w by simp
  have "intact (snd (write_ini lib env1 last_run_path params names mode score fs)) ini_path"
    using e1 i l by (rule write_ini_intact)
  then have f1: "intact fs1 ini_path" using w by simp
  obtain ex where e: "get_existing_score lib fs1 ini_path mode = Inr ex"
    using existing_score_ok [OF f1] by blast
  have "fst (write_ini lib env2 ini_path params names mode score fs1) = None"
    using e2 f1 by (rule write_ini_ok)
  then show ?thesis
    using w r1 e by (simp add: save_to_ini_def)
qed

lemma sample_result:
  "\<exists>A'. objective_function lib0 sample_env tick_vector agent0 = Some (Inr 4000, A')
         \<and> telemetry A' = absorb lib0 (ev_settle sample_env) (telemetry agent0)"
proof -
  let ?A3 = "agent0\<lparr>eval_count := eval_count agent0 + 1,
          waterfall := snd (set_parameters_from_array tick_vector ''tick'' (waterfall agent0)),
          telemetry := absorb lib0 (ev_settle sample_env) (telemetry agent0)\<rparr>"
  obtain r A' where t: "track_best lib0 sample_env ''tick'' 4000 tick_vector ?A3 = (r, A')"
    by (cases "track_best lib0 sample_env ''tick'' 4000 tick_vector ?A3")
  have ok: "fst (save_to_ini lib0 (ev_write1 sample_env) (ev_write2 sample_env) tick_vector
        (get_param_names ''tick'') ''tick'' 4000 (files ?A3)) = None"
    by (rule save_to_ini_ok) (simp_all add: sample_env_def quiet_env_def agent0_mode intact_def)
  have "r = Inr 4000"
    using t ok by (simp add: track_best_def Let_def agent0_mode less_xreal_def split: option.splits)
  moreover have "telemetry A' = telemetry ?A3" using track_best_result(1) [OF t] .
  ultimately show ?thesis using sample_evaluation t by simp
qed

text \<open>
  C2. What an evaluation without telemetry returns. In tick, corr and all mode, with no
  CORR message stored before the evaluation and none arriving during the settle time,
  it returns 1000. In marker mode, with no MARK datagram arriving while it waits and a
  pass that reaches the evaluation time, it returns 1000. In sync mode, with no SYNC
  datagram arriving during the window, there is no fixed penalty: the score is computed
  from the metrics of the empty buffer, \<open>100 + 60/6 = 110\<close>, and goes through the
  tracking of the best like any other score. In the first two cases the best score,
  the best parameters and the files stay as they were.
\<close>

theorem no_telemetry_scores:
  "(opt_mode A \<noteq> ''marker'' \<and> opt_mode A \<noteq> ''sync'' \<and> get_latest (telemetry A) ''CORR'' = None
      \<and> quiet_on lib ''CORR'' (ev_settle env)
      \<longrightarrow> (\<exists>A'. objective_function lib env params A = Some (Inr 1000, A') \<and> same_best A A'))
   \<and> (opt_mode A = ''marker'' \<and> polls_quiet_on lib ''MARK'' (ev_polls env)
      \<and> polls_reach (marker_eval_time A) (ev_polls env)
      \<longrightarrow> (\<exists>A'. objective_function lib env params A = Some (Inr 1000, A') \<and> same_best A A'))
   \<and> (opt_mode A = ''sync'' \<and> polls_quiet_on lib ''SYNC'' (ev_polls env)
      \<and> polls_reach (sync_eval_time A) (ev_polls env)
      \<longrightarrow> (\<exists>A3. objective_function lib env params A = Some (track_best lib env ''sync'' 110 params A3)
             \<and> same_best A A3))"
proof (intro conjI impI)
  assume "opt_mode A \<noteq> ''marker'' \<and> opt_mode A \<noteq> ''sync'' \<and> get_latest (telemetry A) ''CORR'' = None
      \<and> quiet_on lib ''CORR'' (ev_settle env)"
  then show "\<exists>A'. objective_function lib env params A = Some (Inr 1000, A') \<and> same_best A A'"
    using tick_no_telemetry [of A lib env params] by (simp add: same_best_def)
next
  assume "opt_mode A = ''marker'' \<and> polls_quiet_on lib ''MARK'' (ev_polls env)
      \<and> polls_reach (marker_eval_time A) (ev_polls env)"
  then show "\<exists>A'. objective_function lib env params A = Some (Inr 1000, A') \<and> same_best A A'"
    using marker_no_telemetry [of A lib env params] by (simp add: same_best_def)
next
  assume "opt_mode A = ''sync'' \<and> polls_quiet_on lib ''SYNC'' (ev_polls env)
      \<and> polls_reach (sync_eval_time A) (ev_polls env)"
  then show "\<exists>A3. objective_function lib env params A = Some (track_best lib env ''sync'' 110 params A3)
             \<and> same_best A A3"
    using sync_no_telemetry [of A lib env params] by (simp add: same_best_def)
qed

lemma agent0_facts:
  "get_latest (telemetry agent0) ''CORR'' = None"
  "marker_eval_time agent0 = 180" "sync_eval_time agent0 = 60"
  by (simp_all add: agent0_def start_def ControllerAgent_init_def TelemetryListener_init_def get_latest_def)

lemma quiet_env_facts:
  "quiet_on lib0 ch (ev_settle quiet_env)"
  "polls_quiet_on lib0 ch (ev_polls quiet_env)"
  "polls_reach 180 (ev_polls quiet_env)" "polls_reach 60 (ev_polls quiet_env)"
  by (simp_all add: quiet_env_def quiet_on_def polls_quiet_on_def polls_reach_def)

theorem no_telemetry_scores_witness:
  "quiet_on lib0 ''CORR'' (ev_settle quiet_env)
   \<and> polls_quiet_on lib0 ''MARK'' (ev_polls quiet_env)
   \<and> polls_quiet_on lib0 ''SYNC'' (ev_polls quiet_env)
   \<and> polls_reach (marker_eval_time agent0) (ev_polls quiet_env)
   \<and> polls_reach (sync_eval_time agent0) (ev_polls quiet_env)
   \<and> (\<exists>A'. objective_function lib0 quiet_env tick_vector agent0 = Some (Inr 1000, A')
         \<and> same_best agent0 A')
   \<and> (\<exists>A'. objective_function lib0 quiet_env [3, 1/200, 500] (agent0\<lparr>opt_mode := ''marker''\<rparr>)
               = Some (Inr 1000, A')
         \<and> same_best (agent0\<lparr>opt_mode := ''marker''\<rparr>) A')
   \<and> (\<exists>A3. objective_function lib0 quiet_env [] (agent0\<lparr>opt_mode := ''sync''\<rparr>)
               = Some (track_best lib0 quiet_env ''sync'' 110 [] A3)
         \<and> same_best (agent0\<lparr>opt_mode := ''sync''\<rparr>) A3)"
proof -
  note t1 = no_telemetry_scores [of agent0 lib0 quiet_env tick_vector]
  note t2 = no_telemetry_scores [of "agent0\<lparr>opt_mode := ''marker''\<rparr>" lib0 quiet_env "[3, 1/200, 500]"]
  note t3 = no_telemetry_scores [of "agent0\<lparr>opt_mode := ''sync''\<rparr>" lib0 quiet_env "[]"]
  have a: "\<exists>A'. objective_function lib0 quiet_env tick_vector agent0 = Some (Inr 1000, A')
         \<and> same_best agent0 A'"
    using t1 agent0_facts quiet_env_facts by (simp add: agent0_mode)
  have b: "\<exists>A'. objective_function lib0 quiet_env [3, 1/200, 500] (agent0\<lparr>opt_mode := ''marker''\<rparr>)
               = Some (Inr 1000, A')
         \<and> same_best (agent0\<lparr>opt_mode := ''marker''\<rparr>) A'"
    using t2 agent0_facts quiet_env_facts by simp
  have c: "\<exists>A3. objective_function lib0 quiet_env [] (agent0\<lparr>opt_mode := ''sync''\<rparr>)
               = Some (track_best lib0 quiet_env ''sync'' 110 [] A3)
         \<and> same_best (agent0\<lparr>opt_mode := ''sync''\<rparr>) A3"
    using t3 agent0_facts quiet_env_facts by simp
  show ?thesis using a b c agent0_facts quiet_env_facts by simp
qed

text \<open>
  The penalty is not above every score from real telemetry: in tick mode the
  evaluation without telemetry returns 1000, and the evaluation that receives one CORR
  datagram with an interval of 5000 ms returns 4000.
\<close>

theorem penalty_not_maximal:
  "ev_settle quiet_env = []
   \<and> map_option fst (objective_function lib0 quiet_env tick_vector agent0) = Some (Inr 1000)
   \<and> ev_settle sample_env = [Datagram corr_sample 100]
   \<and> map_option fst (objective_function lib0 sample_env tick_vector agent0) = Some (Inr 4000)
   \<and> \<not> (4000 < (1000::real))"
proof -
  obtain A1 where a: "objective_function lib0 quiet_env tick_vector agent0 = Some (Inr 1000, A1)"
    using tick_no_telemetry [of agent0 lib0 quiet_env tick_vector] agent0_facts quiet_env_facts
    by (auto simp: agent0_mode)
  obtain A2 where b: "objective_function lib0 sample_env tick_vector agent0 = Some (Inr 4000, A2)"
    using sample_result by blast
  show ?thesis using a b by (simp add: quiet_env_def sample_env_def)
qed

text \<open>
  C3. The tracking of the best in an evaluation that returns. When the score was
  computed from telemetry and is below the run's best, the best score and the best
  parameters become this evaluation's and the files are those \<open>save_to_ini\<close> leaves for
  them; when the returned score is not below the best, the best score, the best
  parameters and the files are unchanged. An evaluation that did not get past the
  check for missing telemetry returns 1000 and leaves all three unchanged, whatever
  the best was.
\<close>

theorem evaluation_tracks_best:
  assumes "objective_function lib env params A = Some (r, A')"
  shows "(\<forall>s. r = Inr s \<and> score_computed A A' \<and> less_xreal s (best_score A) \<longrightarrow>
            best_score A' = Fin s \<and> best_params A' = params
            \<and> files A' = snd (save_to_ini lib (ev_write1 env) (ev_write2 env) params
                                (get_param_names (opt_mode A)) (opt_mode A) s (files A)))
       \<and> (\<forall>s. r = Inr s \<and> \<not> less_xreal s (best_score A) \<longrightarrow> same_best A A')
       \<and> (\<not> score_computed A A' \<longrightarrow> r = Inr 1000 \<and> same_best A A')"
  using assms by (rule evaluation_cases)

theorem evaluation_tracks_best_witness:
  "\<exists>A'. objective_function lib0 sample_env tick_vector agent0 = Some (Inr 4000, A')
     \<and> score_computed agent0 A' \<and> less_xreal 4000 (best_score agent0)
     \<and> best_score A' = Fin 4000 \<and> best_params A' = tick_vector
     \<and> files A' = snd (save_to_ini lib0 (ev_write1 sample_env) (ev_write2 sample_env) tick_vector
                          (get_param_names ''tick'') ''tick'' 4000 (files agent0))"
proof -
  obtain A' where h: "objective_function lib0 sample_env tick_vector agent0 = Some (Inr 4000, A')"
    and t: "telemetry A' = absorb lib0 (ev_settle sample_env) (telemetry agent0)"
    using sample_result by blast
  have sc: "score_computed agent0 A'"
    by (simp add: score_computed_def agent0_mode t sample_metrics corr_sample_parsed_def)
  have lt: "less_xreal 4000 (best_score agent0)"
    by (simp add: agent0_mode less_xreal_def)
  from evaluation_tracks_best [OF h] sc lt
  have "best_score A' = Fin 4000 \<and> best_params A' = tick_vector
     \<and> files A' = snd (save_to_ini lib0 (ev_write1 sample_env) (ev_write2 sample_env) tick_vector
                          (get_param_names ''tick'') ''tick'' 4000 (files agent0))"
    by (simp add: agent0_mode)
  then show ?thesis using h sc lt by blast
qed

text \<open>
  The claim as stated fails for the penalty score: in the first evaluation of a run,
  without telemetry, the score 1000 is below the best (infinity), and yet the best
  score stays infinite and no all-time-best record is written.
\<close>

theorem penalty_not_tracked:
  "map_option fst (objective_function lib0 quiet_env tick_vector agent0) = Some (Inr 1000)
   \<and> less_xreal 1000 (best_score agent0)
   \<and> map_option (\<lambda>x. best_score (snd x)) (objective_function lib0 quiet_env tick_vector agent0) = Some PInf
   \<and> map_option (\<lambda>x. files (snd x) ini_path) (objective_function lib0 quiet_env tick_vector agent0) = Some None"
proof -
  obtain A1 where a: "objective_function lib0 quiet_env tick_vector agent0 = Some (Inr 1000, A1)"
    and b: "best_score A1 = best_score agent0" "files A1 = files agent0"
    using tick_no_telemetry [of agent0 lib0 quiet_env tick_vector] agent0_facts quiet_env_facts
    by (auto simp: agent0_mode)
  show ?thesis using a b by (simp add: agent0_mode less_xreal_def)
qed

end
